theory Spec2Isabelle
  imports Complex_Main "HOL-Library.Word" "HOL-Library.Signed_Division"
begin

section \<open>Machine types of the AVR target\<close>

text \<open>
  \<^verbatim>\<open>pid.c\<close> is firmware for an 8-bit AVR controller: it includes \<^verbatim>\<open>avr/io.h\<close> and
  \<^verbatim>\<open>avr/pgmspace.h\<close> and reads its tables with \<^verbatim>\<open>memcpy_P\<close>. On that target the C type
  \<^verbatim>\<open>int\<close> has 16 bits, so an expression whose operands are \<^verbatim>\<open>int8_t\<close> or \<^verbatim>\<open>int16_t\<close> is
  computed in 16 bits, and one with an \<^verbatim>\<open>int32_t\<close> operand in 32 bits. Fixed-width
  integers are words; arithmetic on them wraps around (what avr-gcc produces where ISO C
  leaves signed overflow undefined), \<open>sint\<close> reads the two's complement value.

  A \<^verbatim>\<open>float\<close> (and a \<^verbatim>\<open>double\<close>, which avr-gcc gives the same format) is an IEEE 754
  binary32 value, modelled by the real number it denotes. The operations of the
  integrators and of the gyro filter round their exact result to binary32 with
  \<open>round32\<close>. The high-pass filter of the noise measure, whose constants are multiples of
  \<open>pi\<close>, is kept in exact arithmetic. Infinities and NaN are not modelled: the inputs are
  finite, and a magnitude beyond the largest binary32 value is rounded with the spacing of
  the last binade instead of becoming infinite, which the limits that follow treat alike.
\<close>

type_synonym int8_t = "8 word"
type_synonym uint8_t = "8 word"
type_synonym int16_t = "16 word"
type_synonym int32_t = "32 word"
type_synonym uint32_t = "32 word"
type_synonym float = real

text \<open>Rounding to the nearest integer, a tie to the even one.\<close>

definition round_even :: "real \<Rightarrow> int" where
  "round_even t =
     (let n = \<lfloor>t\<rfloor>; d = t - real_of_int n
      in if d < 1 / 2 then n else if 1 / 2 < d then n + 1 else if even n then n else n + 1)"

text \<open>The spacing of the binary32 values around a magnitude \<open>a\<close>: the least spacing
  \<open>2^-149\<close> below \<open>2^-125\<close> (subnormal values and the first binade), doubled until
  \<open>a\<close> has at most 24 significant bits. 254 doublings reach the last binade.\<close>

fun quantum :: "nat \<Rightarrow> real \<Rightarrow> real \<Rightarrow> real" where
  "quantum 0 q a = q"
| "quantum (Suc n) q a = (if a < 16777216 * q then q else quantum n (2 * q) a)"

definition quantum_min :: real where
  "quantum_min = 1 / 2 ^ 149"

text \<open>Rounding of a real to binary32: to the nearest multiple of the spacing, ties to
  even.\<close>

definition round32 :: "real \<Rightarrow> float" where
  "round32 x =
     (let q = quantum 254 quantum_min \<bar>x\<bar>
      in real_of_int (round_even (x / q)) * q)"

definition fadd :: "float \<Rightarrow> float \<Rightarrow> float" where
  "fadd x y = round32 (x + y)"

definition fsub :: "float \<Rightarrow> float \<Rightarrow> float" where
  "fsub x y = round32 (x - y)"

definition fmul :: "float \<Rightarrow> float \<Rightarrow> float" where
  "fmul x y = round32 (x * y)"

definition fdiv :: "float \<Rightarrow> float \<Rightarrow> float" where
  "fdiv x y = round32 (x / y)"

text \<open>Conversion of a float to an integer type truncates towards zero. A value outside
  the target type is undefined in C; the model reduces it modulo the width.\<close>

definition truncf :: "float \<Rightarrow> int" where
  "truncf x = (if 0 \<le> x then \<lfloor>x\<rfloor> else \<lceil>x\<rceil>)"

definition float_to_int16 :: "float \<Rightarrow> int16_t" where
  "float_to_int16 x = word_of_int (truncf x)"

definition float_to_int32 :: "float \<Rightarrow> int32_t" where
  "float_to_int32 x = word_of_int (truncf x)"

text \<open>Promotion of an integer to float. Every \<^verbatim>\<open>int8_t\<close> and \<^verbatim>\<open>int16_t\<close> is a binary32
  value; a 32-bit integer above \<open>2^24\<close> is rounded.\<close>

definition int8_to_float :: "int8_t \<Rightarrow> float" where
  "int8_to_float w = real_of_int (sint w)"

definition int16_to_float :: "int16_t \<Rightarrow> float" where
  "int16_to_float w = real_of_int (sint w)"

definition int32_to_float :: "int32_t \<Rightarrow> float" where
  "int32_to_float w = round32 (real_of_int (sint w))"

definition uint32_to_float :: "uint32_t \<Rightarrow> float" where
  "uint32_to_float w = round32 (real (unat w))"

text \<open>\<^verbatim>\<open>abs\<close> of \<^verbatim>\<open>stdlib.h\<close> has the prototype \<^verbatim>\<open>int abs(int)\<close>.\<close>

definition abs_int :: "int16_t \<Rightarrow> int16_t" where
  "abs_int i = (if sint i < 0 then - i else i)"

text \<open>Signed 32-bit division of C truncates towards zero.\<close>

definition div_int32 :: "int32_t \<Rightarrow> int32_t \<Rightarrow> int32_t" where
  "div_int32 a b = word_of_int (sint a sdiv sint b)"

section \<open>Data model\<close>

text \<open>Indices of the profile and axis arrays. The loops of the source run
  \<^verbatim>\<open>for (i = P1; i <= P2; i++)\<close> over arrays of \<^verbatim>\<open>FLIGHT_MODES\<close> rows and
  \<^verbatim>\<open>for (axis = 0; axis <= YAW; axis++)\<close> over arrays of \<^verbatim>\<open>NUMBEROFAXIS\<close> columns;
  \<^verbatim>\<open>ZED\<close> is the extra column of the tables with \<^verbatim>\<open>NUMBEROFAXIS+1\<close> columns.\<close>

datatype profile = P1 | P2

datatype axis = ROLL | PITCH | YAW | ZED

datatype channel = AILERON | ELEVATOR | RUDDER

text \<open>The fields of \<^verbatim>\<open>Config.FlightMode[p]\<close> that \<^verbatim>\<open>pid.c\<close> reads. The structure is declared
  outside the file; the local arrays that receive the fields are \<^verbatim>\<open>int8_t\<close>.\<close>

record flight_control =
  Roll_Rate :: int8_t
  Pitch_Rate :: int8_t
  Yaw_Rate :: int8_t
  Roll_P_mult :: int8_t
  Pitch_P_mult :: int8_t
  Yaw_P_mult :: int8_t
  Roll_I_mult :: int8_t
  Pitch_I_mult :: int8_t
  Yaw_I_mult :: int8_t
  A_Zed_I_mult :: int8_t
  A_Roll_P_mult :: int8_t
  A_Pitch_P_mult :: int8_t
  A_Zed_P_mult :: int8_t
  Yaw_trim :: int8_t

record config =
  FlightMode :: "profile \<Rightarrow> flight_control"
  Vibration :: int8_t
  Servo_rate :: int8_t
  Gyro_LPF :: int8_t
  AccVertFilter :: int8_t
  Raw_I_Constrain :: "profile \<Rightarrow> axis \<Rightarrow> int32_t"
  Raw_I_Limits :: "profile \<Rightarrow> axis \<Rightarrow> int32_t"
  Rolltrim :: "profile \<Rightarrow> int16_t"
  Pitchtrim :: "profile \<Rightarrow> int16_t"

text \<open>Constants and program-memory tables that the file uses and other files declare:
  they are parameters of the model.\<close>

record externs =
  ON :: int8_t
  FAST :: int8_t
  NOFILTER :: int8_t
  LPF_lookup :: "int8_t \<Rightarrow> float"
  LPF_lookup_HS :: "int8_t \<Rightarrow> float"

text \<open>Values that other modules write and \<^verbatim>\<open>pid.c\<close> only reads. \<^verbatim>\<open>LoopCount\<close> is
  declared outside the file; it is taken as an unsigned byte counter, which the
  division promotes to \<^verbatim>\<open>int32_t\<close>.\<close>

record inputs =
  gyroADC_raw :: "axis \<Rightarrow> int16_t"
  RCinputs :: "channel \<Rightarrow> int16_t"
  accVertf :: float
  angle :: "axis \<Rightarrow> int16_t"
  LoopCount :: uint8_t

text \<open>The globals that \<^verbatim>\<open>pid.c\<close> writes: its own, and \<^verbatim>\<open>gyroADC\<close> of the gyro module.\<close>

record state =
  PID_Gyros :: "profile \<Rightarrow> axis \<Rightarrow> int16_t"
  PID_ACCs :: "profile \<Rightarrow> axis \<Rightarrow> int16_t"
  IntegralGyro :: "profile \<Rightarrow> axis \<Rightarrow> int32_t"
  IntegralAccVertf :: "profile \<Rightarrow> float"
  gyroSmooth :: "axis \<Rightarrow> float"
  PID_AvgGyro :: "axis \<Rightarrow> int32_t"
  GyroAvgNoise :: float
  HPF_V :: float
  HPF_T :: float
  HPF_I :: float
  fsample :: float
  gyroADC :: "axis \<Rightarrow> int16_t"

text \<open>C initialises the globals with zero.\<close>

definition init_state :: state where
  "init_state = \<lparr> PID_Gyros = (\<lambda>p a. 0), PID_ACCs = (\<lambda>p a. 0), IntegralGyro = (\<lambda>p a. 0),
     IntegralAccVertf = (\<lambda>p. 0), gyroSmooth = (\<lambda>a. 0), PID_AvgGyro = (\<lambda>a. 0),
     GyroAvgNoise = 0, HPF_V = 0, HPF_T = 0, HPF_I = 0, fsample = 0, gyroADC = (\<lambda>a. 0) \<rparr>"

definition upd2 :: "('a \<Rightarrow> 'b \<Rightarrow> 'c) \<Rightarrow> 'a \<Rightarrow> 'b \<Rightarrow> 'c \<Rightarrow> ('a \<Rightarrow> 'b \<Rightarrow> 'c)" where
  "upd2 f i j v = f(i := (f i)(j := v))"

section \<open>Constants of the file\<close>

definition PID_SCALE :: nat where
  "PID_SCALE = 6"

definition STANDARDLOOP :: float where
  "STANDARDLOOP = 3571"

definition HPF_O :: float where
  "HPF_O = 2 * pi * 20 / 500"

definition HPF_C :: float where
  "HPF_C = 1 / HPF_O"

definition HPF_L :: float where
  "HPF_L = 1 / 1 / HPF_O"

section \<open>Sensor\_PID: the per-tick sampler\<close>

text \<open>The local array \<^verbatim>\<open>RCinputsAxis\<close>: the roll stick is negated.\<close>

fun RCinputsAxis :: "inputs \<Rightarrow> axis \<Rightarrow> int16_t" where
  "RCinputsAxis inp ROLL = - RCinputs inp AILERON"
| "RCinputsAxis inp PITCH = RCinputs inp ELEVATOR"
| "RCinputsAxis inp YAW = RCinputs inp RUDDER"

fun Stick_rates :: "config \<Rightarrow> profile \<Rightarrow> axis \<Rightarrow> int8_t" where
  "Stick_rates cfg p ROLL = Roll_Rate (FlightMode cfg p)"
| "Stick_rates cfg p PITCH = Pitch_Rate (FlightMode cfg p)"
| "Stick_rates cfg p YAW = Yaw_Rate (FlightMode cfg p)"

text \<open>The gyro noise measure (lines 120 to 140). The three raw readings are added in
  \<^verbatim>\<open>int\<close>; \<^verbatim>\<open>abs(fsample)\<close> converts its float argument to \<^verbatim>\<open>int\<close> first. The filter
  arithmetic is the exact one.\<close>

definition noise_measure :: "externs \<Rightarrow> config \<Rightarrow> inputs \<Rightarrow> state \<Rightarrow> state" where
  "noise_measure ext cfg inp s =
     (if Vibration cfg = ON ext then
        let fs0 = int16_to_float (gyroADC_raw inp ROLL + gyroADC_raw inp PITCH + gyroADC_raw inp YAW);
            t = fs0 * HPF_O - HPF_V s;
            v = HPF_V s + (HPF_I s + t) / HPF_C;
            i = HPF_I s + t / HPF_L;
            fs = fs0 - v / HPF_O;
            n = (GyroAvgNoise s * 99 + int16_to_float (abs_int (float_to_int16 fs))) / 100;
            n' = (if n > 999 then 999 else n)
        in s\<lparr>HPF_T := t, HPF_V := v, HPF_I := i, fsample := fs, GyroAvgNoise := n'\<rparr>
      else s)"

text \<open>The stick rate divider (lines 149 to 165). The shift count is computed in \<^verbatim>\<open>int\<close>,
  the shifted value is stored in an \<^verbatim>\<open>int16_t\<close>; avr-gcc shifts a negative value
  arithmetically.\<close>

definition stick_rate :: "int8_t \<Rightarrow> int16_t \<Rightarrow> int16_t" where
  "stick_rate rate rc =
     (if sint rate \<le> 6 then signed_drop_bit (nat (4 - (sint rate - 2))) rc
      else push_bit (nat (sint rate - 6)) rc)"

text \<open>The limit of the gyro I-terms (lines 235 to 243): two independent tests.\<close>

definition constrain_I :: "int32_t \<Rightarrow> int32_t \<Rightarrow> int32_t" where
  "constrain_I c x =
     (let x1 = (if sint x > sint c then c else x)
      in if sint x1 < sint (- c) then - c else x1)"

text \<open>Scaling of an increment by the loop period (lines 208 to 218): the period and the
  increment are promoted to float, the quotient by \<^verbatim>\<open>STANDARDLOOP\<close> and the product are
  rounded to binary32, and the product is truncated to \<^verbatim>\<open>int32_t\<close>.\<close>

definition scale_period :: "uint32_t \<Rightarrow> int32_t \<Rightarrow> int32_t" where
  "scale_period period x =
     (let factor = fdiv (uint32_to_float period) STANDARDLOOP
      in float_to_int32 (fmul (int32_to_float x) factor))"

text \<open>The gyro low-pass filter (lines 173 to 196), each operation rounded to binary32. The
  entries of the coefficient tables are non-zero.\<close>

definition gyro_lpf :: "externs \<Rightarrow> config \<Rightarrow> float \<Rightarrow> int16_t \<Rightarrow> float" where
  "gyro_lpf ext cfg smooth g =
     (let tempf1 = (if Servo_rate cfg \<noteq> FAST ext then LPF_lookup ext (Gyro_LPF cfg)
                    else LPF_lookup_HS ext (Gyro_LPF cfg));
          gyroADCf = int16_to_float g
      in if Gyro_LPF cfg \<noteq> NOFILTER ext
         then fdiv (fadd (fmul smooth (fsub tempf1 1)) gyroADCf) tempf1
         else gyroADCf)"

text \<open>One pass of the axis loop (lines 142 to 252).\<close>

definition sensor_axis :: "externs \<Rightarrow> config \<Rightarrow> inputs \<Rightarrow> uint32_t \<Rightarrow> axis \<Rightarrow> state \<Rightarrow> state" where
  "sensor_axis ext cfg inp period ax s =
     (let stick_P1 = stick_rate (Stick_rates cfg P1 ax) (RCinputsAxis inp ax);
          stick_P2 = stick_rate (Stick_rates cfg P2 ax) (RCinputsAxis inp ax);
          smooth = gyro_lpf ext cfg (gyroSmooth s ax) (gyroADC s ax);
          g = float_to_int16 smooth;
          P1_temp = scale_period period (scast (g + stick_P1));
          P2_temp = scale_period period (scast (g + stick_P2));
          i1 = constrain_I (Raw_I_Constrain cfg P1 ax) (IntegralGyro s P1 ax + P1_temp);
          i2 = constrain_I (Raw_I_Constrain cfg P2 ax) (IntegralGyro s P2 ax + P2_temp)
      in s\<lparr>gyroSmooth := (gyroSmooth s)(ax := smooth),
            gyroADC := (gyroADC s)(ax := g),
            IntegralGyro := upd2 (upd2 (IntegralGyro s) P1 ax i1) P2 ax i2,
            PID_AvgGyro := (PID_AvgGyro s)(ax := PID_AvgGyro s ax + scast g)\<rparr>)"

text \<open>The Z-acc I-term: accumulation (lines 270 and 271), decay (lines 311 to 316) and
  limit (lines 322 to 335). The quotient and the difference of the decay factor, the sum
  and the product are rounded to binary32; the limit is the table entry promoted to
  float.\<close>

definition decay_factor :: "config \<Rightarrow> float" where
  "decay_factor cfg = fsub 1 (fdiv (int8_to_float (AccVertFilter cfg)) 10000)"

definition acc_decay :: "config \<Rightarrow> float \<Rightarrow> float" where
  "acc_decay cfg x = fmul x (decay_factor cfg)"

definition constrain_accf :: "float \<Rightarrow> float \<Rightarrow> float" where
  "constrain_accf c x =
     (let x1 = (if x > c then c else x)
      in if x1 < - c then - c else x1)"

definition acc_integrate :: "config \<Rightarrow> inputs \<Rightarrow> profile \<Rightarrow> float \<Rightarrow> float" where
  "acc_integrate cfg inp p x =
     constrain_accf (int32_to_float (Raw_I_Constrain cfg p ZED))
       (acc_decay cfg (fadd x (accVertf inp)))"

definition Sensor_PID :: "externs \<Rightarrow> config \<Rightarrow> inputs \<Rightarrow> uint32_t \<Rightarrow> state \<Rightarrow> state" where
  "Sensor_PID ext cfg inp period s =
     (let s1 = noise_measure ext cfg inp s;
          s2 = fold (sensor_axis ext cfg inp period) [ROLL, PITCH, YAW] s1
      in s2\<lparr>IntegralAccVertf := (\<lambda>p. acc_integrate cfg inp p (IntegralAccVertf s2 p))\<rparr>)"

section \<open>Calculate\_PID: the output combiner\<close>

fun P_gain :: "config \<Rightarrow> profile \<Rightarrow> axis \<Rightarrow> int8_t" where
  "P_gain cfg p ROLL = Roll_P_mult (FlightMode cfg p)"
| "P_gain cfg p PITCH = Pitch_P_mult (FlightMode cfg p)"
| "P_gain cfg p YAW = Yaw_P_mult (FlightMode cfg p)"

fun I_gain :: "config \<Rightarrow> profile \<Rightarrow> axis \<Rightarrow> int8_t" where
  "I_gain cfg p ROLL = Roll_I_mult (FlightMode cfg p)"
| "I_gain cfg p PITCH = Pitch_I_mult (FlightMode cfg p)"
| "I_gain cfg p YAW = Yaw_I_mult (FlightMode cfg p)"
| "I_gain cfg p ZED = A_Zed_I_mult (FlightMode cfg p)"

fun L_gain :: "config \<Rightarrow> profile \<Rightarrow> axis \<Rightarrow> int8_t" where
  "L_gain cfg p ROLL = A_Roll_P_mult (FlightMode cfg p)"
| "L_gain cfg p PITCH = A_Pitch_P_mult (FlightMode cfg p)"
| "L_gain cfg p YAW = A_Zed_P_mult (FlightMode cfg p)"

fun L_trim :: "config \<Rightarrow> profile \<Rightarrow> axis \<Rightarrow> int16_t" where
  "L_trim cfg p ROLL = Rolltrim cfg p"
| "L_trim cfg p PITCH = Pitchtrim cfg p"

text \<open>The averaged gyro reading (line 386).\<close>

definition avg_gyro :: "inputs \<Rightarrow> state \<Rightarrow> axis \<Rightarrow> int16_t" where
  "avg_gyro inp s ax = ucast (div_int32 (PID_AvgGyro s ax) (ucast (LoopCount inp)))"

text \<open>The gyro P-term (lines 393 to 411 and 418 to 419). The product of the \<^verbatim>\<open>int16_t\<close>
  reading and the \<^verbatim>\<open>int8_t\<close> gain is an \<^verbatim>\<open>int\<close>, as is the shifted yaw trim; the sum and
  the multiplication by 3 are \<^verbatim>\<open>int32_t\<close>.\<close>

definition gyro_P_term :: "config \<Rightarrow> profile \<Rightarrow> axis \<Rightarrow> int16_t \<Rightarrow> int32_t" where
  "gyro_P_term cfg p ax g =
     (let bias = (if ax = YAW then scast (push_bit 6 (scast (Yaw_trim (FlightMode cfg p)) :: int16_t))
                  else 0);
          temp = bias + scast (g * scast (P_gain cfg p ax) :: int16_t)
      in temp * 3)"

text \<open>The gyro I-term before its limit (lines 414 to 415 and 422 to 423).\<close>

definition gyro_I_product :: "config \<Rightarrow> state \<Rightarrow> profile \<Rightarrow> axis \<Rightarrow> int32_t" where
  "gyro_I_product cfg s p ax = IntegralGyro s p ax * scast (I_gain cfg p ax)"

definition gyro_I_actual :: "config \<Rightarrow> state \<Rightarrow> profile \<Rightarrow> axis \<Rightarrow> int32_t" where
  "gyro_I_actual cfg s p ax = signed_drop_bit 5 (gyro_I_product cfg s p ax)"

text \<open>The I-term output limit (lines 430 to 447): the second test is an \<^verbatim>\<open>else if\<close>.\<close>

definition limit_I :: "int32_t \<Rightarrow> int32_t \<Rightarrow> int32_t" where
  "limit_I l x =
     (if sint x > sint l then l
      else if sint x < sint (- l) then - l
      else x)"

definition gyro_I_term :: "config \<Rightarrow> state \<Rightarrow> profile \<Rightarrow> axis \<Rightarrow> int32_t" where
  "gyro_I_term cfg s p ax = limit_I (Raw_I_Limits cfg p ax) (gyro_I_actual cfg s p ax)"

text \<open>The sum of the terms, rescaled and stored in an \<^verbatim>\<open>int16_t\<close> (lines 453 and 454).\<close>

definition pid_sum :: "int32_t \<Rightarrow> int32_t \<Rightarrow> int16_t" where
  "pid_sum pterm iterm = ucast (signed_drop_bit PID_SCALE (pterm + iterm))"

text \<open>The angle error of roll and pitch (lines 465 to 467): the difference is an \<^verbatim>\<open>int\<close>.\<close>

definition level_term :: "config \<Rightarrow> inputs \<Rightarrow> profile \<Rightarrow> axis \<Rightarrow> int16_t" where
  "level_term cfg inp p ax =
     (let temp1 = (scast (angle inp ax - L_trim cfg p ax) :: int32_t);
          temp2 = temp1 * scast (L_gain cfg p ax)
      in ucast (signed_drop_bit 8 temp2))"

text \<open>One pass of the axis loop (lines 380 to 471).\<close>

definition pid_axis :: "config \<Rightarrow> inputs \<Rightarrow> axis \<Rightarrow> state \<Rightarrow> state" where
  "pid_axis cfg inp ax s =
     (let g = avg_gyro inp s ax;
          out1 = pid_sum (gyro_P_term cfg P1 ax g) (gyro_I_term cfg s P1 ax);
          out2 = pid_sum (gyro_P_term cfg P2 ax g) (gyro_I_term cfg s P2 ax);
          acc = (if ax = ROLL \<or> ax = PITCH
                 then upd2 (upd2 (PID_ACCs s) P1 ax (level_term cfg inp P1 ax)) P2 ax
                        (level_term cfg inp P2 ax)
                 else PID_ACCs s)
      in s\<lparr>gyroADC := (gyroADC s)(ax := g),
            PID_AvgGyro := (PID_AvgGyro s)(ax := 0),
            PID_Gyros := upd2 (upd2 (PID_Gyros s) P1 ax out1) P2 ax out2,
            PID_ACCs := acc\<rparr>)"

text \<open>The Acc-Z PI value of one profile (lines 481 to 500).\<close>

definition zed_P_term :: "config \<Rightarrow> inputs \<Rightarrow> profile \<Rightarrow> int32_t" where
  "zed_P_term cfg inp p = float_to_int32 (- accVertf inp) * scast (L_gain cfg p YAW) * 3"

definition zed_I_term :: "config \<Rightarrow> state \<Rightarrow> profile \<Rightarrow> int32_t" where
  "zed_I_term cfg s p =
     constrain_I (Raw_I_Limits cfg p ZED)
       (signed_drop_bit 2 (float_to_int32 (- IntegralAccVertf s p) * scast (I_gain cfg p ZED)))"

definition pid_zed :: "config \<Rightarrow> inputs \<Rightarrow> profile \<Rightarrow> state \<Rightarrow> state" where
  "pid_zed cfg inp p s =
     s\<lparr>PID_ACCs := upd2 (PID_ACCs s) p YAW (pid_sum (zed_P_term cfg inp p) (zed_I_term cfg s p))\<rparr>"

text \<open>Division by zero is undefined in C: the combiner has no result when \<^verbatim>\<open>LoopCount\<close>
  is zero.\<close>

definition Calculate_PID :: "config \<Rightarrow> inputs \<Rightarrow> state \<Rightarrow> state option" where
  "Calculate_PID cfg inp s =
     (if LoopCount inp = 0 then None
      else Some (fold (pid_zed cfg inp) [P1, P2] (fold (pid_axis cfg inp) [ROLL, PITCH, YAW] s)))"

section \<open>Sequences of calls\<close>

text \<open>The scheduler stores the fresh gyro sample in \<^verbatim>\<open>gyroADC\<close> before each tick, then
  calls the sampler with the loop period; at its own cadence it calls the combiner.\<close>

datatype call = Sampler "axis \<Rightarrow> int16_t" inputs uint32_t | Combiner inputs

fun step :: "externs \<Rightarrow> config \<Rightarrow> call \<Rightarrow> state \<Rightarrow> state option" where
  "step ext cfg (Sampler gyro inp period) s = Some (Sensor_PID ext cfg inp period (s\<lparr>gyroADC := gyro\<rparr>))"
| "step ext cfg (Combiner inp) s = Calculate_PID cfg inp s"

fun run :: "externs \<Rightarrow> config \<Rightarrow> call list \<Rightarrow> state \<Rightarrow> state option" where
  "run ext cfg [] s = Some s"
| "run ext cfg (c # cs) s =
     (case step ext cfg c s of None \<Rightarrow> None | Some s' \<Rightarrow> run ext cfg cs s')"

section \<open>Predicates on configurations and states\<close>

text \<open>Every entry of a limit table is non-negative.\<close>

definition limits_nonneg :: "(profile \<Rightarrow> axis \<Rightarrow> int32_t) \<Rightarrow> bool" where
  "limits_nonneg t = (\<forall>p\<in>{P1, P2}. \<forall>a\<in>{ROLL, PITCH, YAW, ZED}. 0 \<le> sint (t p a))"

text \<open>Every gyro integrator lies within its configured constraint.\<close>

definition gyro_clamped :: "config \<Rightarrow> state \<Rightarrow> bool" where
  "gyro_clamped cfg s =
     (\<forall>p\<in>{P1, P2}. \<forall>a\<in>{ROLL, PITCH, YAW}.
        \<bar>sint (IntegralGyro s p a)\<bar> \<le> sint (Raw_I_Constrain cfg p a))"

text \<open>Every P, I and levelling gain of both profiles is zero.\<close>

definition zero_gains :: "config \<Rightarrow> bool" where
  "zero_gains cfg =
     (\<forall>p\<in>{P1, P2}.
        (\<forall>a\<in>{ROLL, PITCH, YAW}. P_gain cfg p a = 0 \<and> L_gain cfg p a = 0) \<and>
        (\<forall>a\<in>{ROLL, PITCH, YAW, ZED}. I_gain cfg p a = 0))"

text \<open>A sampler tick with zero gyro readings and centred sticks.\<close>

fun zero_tick :: "call \<Rightarrow> bool" where
  "zero_tick (Sampler gyro inp period) =
     ((\<forall>a\<in>{ROLL, PITCH, YAW}. gyro a = 0 \<and> gyroADC_raw inp a = 0) \<and>
      (\<forall>c\<in>{AILERON, ELEVATOR, RUDDER}. RCinputs inp c = 0))"
| "zero_tick (Combiner inp) = False"

section \<open>Concrete values for evaluation\<close>

definition test_flight :: flight_control where
  "test_flight = \<lparr> Roll_Rate = 6, Pitch_Rate = 6, Yaw_Rate = 6,
     Roll_P_mult = 10, Pitch_P_mult = 10, Yaw_P_mult = 10,
     Roll_I_mult = 0, Pitch_I_mult = 0, Yaw_I_mult = 0, A_Zed_I_mult = 0,
     A_Roll_P_mult = 0, A_Pitch_P_mult = 0, A_Zed_P_mult = 0, Yaw_trim = 0 \<rparr>"

definition test_config :: config where
  "test_config = \<lparr> FlightMode = (\<lambda>p. test_flight), Vibration = 0, Servo_rate = 0,
     Gyro_LPF = 7, AccVertFilter = 0,
     Raw_I_Constrain = (\<lambda>p a. 50), Raw_I_Limits = (\<lambda>p a. 10),
     Rolltrim = (\<lambda>p. 0), Pitchtrim = (\<lambda>p. 0) \<rparr>"

definition test_externs :: externs where
  "test_externs = \<lparr> ON = 1, FAST = 2, NOFILTER = 7,
     LPF_lookup = (\<lambda>i. 2), LPF_lookup_HS = (\<lambda>i. 2) \<rparr>"

definition test_inputs :: inputs where
  "test_inputs = \<lparr> gyroADC_raw = (\<lambda>a. 0), RCinputs = (\<lambda>c. 0), accVertf = 100,
     angle = (\<lambda>a. 0), LoopCount = 1 \<rparr>"

definition gyro_100 :: "axis \<Rightarrow> int16_t" where
  "gyro_100 = (\<lambda>a. 100)"

definition gyro_1000 :: "axis \<Rightarrow> int16_t" where
  "gyro_1000 = (\<lambda>a. 1000)"

definition gyro_10000 :: "axis \<Rightarrow> int16_t" where
  "gyro_10000 = (\<lambda>a. 10000)"

definition gyro_zero :: "axis \<Rightarrow> int16_t" where
  "gyro_zero = (\<lambda>a. 0)"

text \<open>A roll P gain of 100 in both profiles.\<close>

definition gain100_config :: config where
  "gain100_config = test_config\<lparr>FlightMode := (\<lambda>p. test_flight\<lparr>Roll_P_mult := 100\<rparr>)\<rparr>"

text \<open>Constraints of 20000000 and a roll I gain of 127.\<close>

definition wide_config :: config where
  "wide_config = test_config\<lparr>FlightMode := (\<lambda>p. test_flight\<lparr>Roll_I_mult := 127\<rparr>),
     Raw_I_Constrain := (\<lambda>p a. 20000000)\<rparr>"

text \<open>All gains zero; with and without a yaw trim of 1.\<close>

definition zero_flight :: flight_control where
  "zero_flight = test_flight\<lparr>Roll_P_mult := 0, Pitch_P_mult := 0, Yaw_P_mult := 0\<rparr>"

definition zero_config :: config where
  "zero_config = test_config\<lparr>FlightMode := (\<lambda>p. zero_flight)\<rparr>"

definition trim_config :: config where
  "trim_config = test_config\<lparr>FlightMode := (\<lambda>p. zero_flight\<lparr>Yaw_trim := 1\<rparr>)\<rparr>"

definition zero_inputs :: inputs where
  "zero_inputs = test_inputs\<lparr>accVertf := 0\<rparr>"

text \<open>Vibration display on; a raw roll reading of 1.\<close>

definition noise_config :: config where
  "noise_config = test_config\<lparr>Vibration := 1\<rparr>"

definition noise_inputs :: inputs where
  "noise_inputs = test_inputs\<lparr>gyroADC_raw := (\<lambda>a. if a = ROLL then 1 else 0)\<rparr>"

text \<open>A decay setting of 1; a vertical integrator of 3.\<close>

definition decay_config :: config where
  "decay_config = test_config\<lparr>AccVertFilter := 1\<rparr>"

definition three_state :: state where
  "three_state = init_state\<lparr>IntegralAccVertf := (\<lambda>p. 3)\<rparr>"

text \<open>A vertical constraint of 16777219, which is not a binary32 value, and a sample
  above it.\<close>

definition odd_config :: config where
  "odd_config = test_config\<lparr>Raw_I_Constrain := (\<lambda>p a. 16777219)\<rparr>"

definition big_inputs :: inputs where
  "big_inputs = test_inputs\<lparr>accVertf := 33554432\<rparr>"

text \<open>Constraints of 16777215 and a roll I gain of 127.\<close>

definition tight_config :: config where
  "tight_config = test_config\<lparr>FlightMode := (\<lambda>p. test_flight\<lparr>Roll_I_mult := 127\<rparr>),
     Raw_I_Constrain := (\<lambda>p a. 16777215)\<rparr>"

text \<open>A combiner call after two ticks.\<close>

definition two_inputs :: inputs where
  "two_inputs = test_inputs\<lparr>LoopCount := 2\<rparr>"

definition zero_inputs2 :: inputs where
  "zero_inputs2 = zero_inputs\<lparr>LoopCount := 2\<rparr>"

text \<open>States with a gyro sum of 100 and of -7 on every axis.\<close>

definition sum100_state :: state where
  "sum100_state = init_state\<lparr>PID_AvgGyro := (\<lambda>a. 100)\<rparr>"

definition avg_state :: state where
  "avg_state = init_state\<lparr>PID_AvgGyro := (\<lambda>a. - 7)\<rparr>"

text \<open>The states after one tick with a gyro reading of 10000 and a period of 7142000
  counts, and after one tick with a gyro reading of 1000 at the standard period.\<close>

definition wide_state :: state where
  "wide_state =
     Sensor_PID test_externs wide_config test_inputs 7142000 (init_state\<lparr>gyroADC := gyro_10000\<rparr>)"

definition tight_state :: state where
  "tight_state =
     Sensor_PID test_externs tight_config test_inputs 7142000 (init_state\<lparr>gyroADC := gyro_10000\<rparr>)"

definition gain100_state :: state where
  "gain100_state =
     Sensor_PID test_externs gain100_config test_inputs 3571 (init_state\<lparr>gyroADC := gyro_1000\<rparr>)"

lemmas test_defs = test_flight_def test_config_def test_externs_def test_inputs_def init_state_def
  gyro_100_def gyro_1000_def gyro_10000_def gyro_zero_def gain100_config_def wide_config_def
  zero_flight_def zero_config_def trim_config_def zero_inputs_def noise_config_def
  noise_inputs_def decay_config_def two_inputs_def zero_inputs2_def sum100_state_def
  avg_state_def three_state_def odd_config_def big_inputs_def tight_config_def

lemmas combiner_defs = Calculate_PID_def pid_axis_def pid_zed_def avg_gyro_def div_int32_def
  gyro_P_term_def gyro_I_product_def gyro_I_actual_def limit_I_def gyro_I_term_def pid_sum_def
  level_term_def zed_P_term_def zed_I_term_def PID_SCALE_def

lemmas sampler_defs = Sensor_PID_def noise_measure_def sensor_axis_def gyro_lpf_def stick_rate_def
  scale_period_def constrain_I_def acc_integrate_def acc_decay_def decay_factor_def
  constrain_accf_def STANDARDLOOP_def float_to_int16_def float_to_int32_def int8_to_float_def
  int16_to_float_def int32_to_float_def uint32_to_float_def fadd_def fsub_def fmul_def fdiv_def
  truncf_def abs_int_def upd2_def Let_def

section \<open>Rounding to binary32\<close>

lemma round_even_cases:
  "round_even t = \<lfloor>t\<rfloor> \<and> t - real_of_int \<lfloor>t\<rfloor> \<le> 1 / 2 \<or>
   round_even t = \<lfloor>t\<rfloor> + 1 \<and> 1 / 2 \<le> t - real_of_int \<lfloor>t\<rfloor>"
  by (auto simp: round_even_def Let_def)

lemma round_even_err: "\<bar>real_of_int (round_even t) - t\<bar> \<le> 1 / 2"
proof -
  have "real_of_int \<lfloor>t\<rfloor> \<le> t" "t < real_of_int \<lfloor>t\<rfloor> + 1" by linarith+
  then show ?thesis using round_even_cases [of t] by auto
qed

lemma round_even_of_int [simp]: "round_even (real_of_int k) = k"
  by (simp add: round_even_def)

lemma round_even_le: "t \<le> real_of_int n \<Longrightarrow> round_even t \<le> n"
proof -
  assume a: "t \<le> real_of_int n"
  then have f: "\<lfloor>t\<rfloor> \<le> n" by (simp add: floor_le_iff) 
  show ?thesis
  proof (cases "\<lfloor>t\<rfloor> = n")
    case True
    then have "t - real_of_int \<lfloor>t\<rfloor> \<le> 0" using a by simp
    then show ?thesis using True by (simp add: round_even_def Let_def)
  next
    case False
    with f have "\<lfloor>t\<rfloor> + 1 \<le> n" by linarith
    then show ?thesis using round_even_cases [of t] f by auto
  qed
qed

lemma round_even_ge: "real_of_int n \<le> t \<Longrightarrow> n \<le> round_even t"
proof -
  assume "real_of_int n \<le> t"
  then have "n \<le> \<lfloor>t\<rfloor>" by (simp add: le_floor_iff)
  then show ?thesis using round_even_cases [of t] by auto
qed

lemma round_even_abs_le: "\<bar>t\<bar> \<le> real_of_int n \<Longrightarrow> \<bar>round_even t\<bar> \<le> n"
proof -
  assume a: "\<bar>t\<bar> \<le> real_of_int n"
  then have u: "t \<le> real_of_int n" and l: "real_of_int (- n) \<le> t" by simp_all
  have "round_even t \<le> n" using u by (rule round_even_le)
  moreover have "- n \<le> round_even t" using l by (rule round_even_ge)
  ultimately show ?thesis by linarith
qed

lemma quantum_pos: "0 < q \<Longrightarrow> 0 < quantum n q a"
  by (induction n arbitrary: q) simp_all

lemma quantum_bound: "0 < q \<Longrightarrow> quantum n q a = q \<or> 8388608 * quantum n q a \<le> a"
proof (induction n arbitrary: q)
  case 0
  then show ?case by simp
next
  case (Suc n)
  show ?case
  proof (cases "a < 16777216 * q")
    case True
    then show ?thesis by simp
  next
    case False
    from Suc.prems have "0 < 2 * q" by simp
    from Suc.IH [OF this] False show ?thesis by auto
  qed
qed

lemma quantum_form: "\<exists>k\<le>n. quantum n q a = q * 2 ^ k"
proof (induction n arbitrary: q)
  case 0
  then show ?case by simp
next
  case (Suc n)
  show ?case
  proof (cases "a < 16777216 * q")
    case True
    then have "quantum (Suc n) q a = q * 2 ^ 0" by simp
    then show ?thesis by blast
  next
    case False
    from Suc.IH [of "2 * q"] obtain k where "k \<le> n" "quantum n (2 * q) a = 2 * q * 2 ^ k" by blast
    with False have "Suc k \<le> Suc n" "quantum (Suc n) q a = q * 2 ^ Suc k" by simp_all
    then show ?thesis by blast
  qed
qed

lemma quantum_eval:
  "0 < q \<Longrightarrow> k \<le> n \<Longrightarrow> a < 16777216 * (q * 2 ^ k) \<Longrightarrow> k = 0 \<or> 8388608 * (q * 2 ^ k) \<le> a \<Longrightarrow>
     quantum n q a = q * 2 ^ k"
proof (induction n arbitrary: q k)
  case 0
  then show ?case by simp
next
  case (Suc n)
  show ?case
  proof (cases k)
    case 0
    with Suc.prems show ?thesis by simp
  next
    case (Suc j)
    with Suc.prems have lo: "8388608 * (q * 2 ^ Suc j) \<le> a" by simp
    have "16777216 * q \<le> 8388608 * (q * 2 ^ Suc j)"
      using Suc.prems(1) by simp
    with lo have nlt: "\<not> a < 16777216 * q" by linarith
    have "quantum n (2 * q) a = 2 * q * 2 ^ j"
    proof (rule Suc.IH)
      show "0 < 2 * q" using Suc.prems(1) by simp
      show "j \<le> n" using Suc.prems(2) Suc by simp
      show "a < 16777216 * (2 * q * 2 ^ j)" using Suc.prems(3) Suc by simp
      show "j = 0 \<or> 8388608 * (2 * q * 2 ^ j) \<le> a" using lo by simp
    qed
    with nlt Suc show ?thesis by simp
  qed
qed

lemma quantum_min_pos: "0 < quantum_min"
  by (simp add: quantum_min_def)

lemma round32_quantum:
  "\<exists>q. 0 < q \<and> round32 x = real_of_int (round_even (x / q)) * q \<and>
       (q = quantum_min \<or> 8388608 * q \<le> \<bar>x\<bar>)"
proof -
  define q where "q = quantum 254 quantum_min \<bar>x\<bar>"
  have "0 < q" unfolding q_def by (rule quantum_pos) (rule quantum_min_pos)
  moreover have "round32 x = real_of_int (round_even (x / q)) * q"
    by (simp add: round32_def q_def Let_def)
  moreover have "q = quantum_min \<or> 8388608 * q \<le> \<bar>x\<bar>"
    unfolding q_def by (rule quantum_bound) (rule quantum_min_pos)
  ultimately show ?thesis by blast
qed

lemma round32_err: "\<bar>round32 x - x\<bar> \<le> quantum_min / 2 \<or> \<bar>round32 x - x\<bar> \<le> \<bar>x\<bar> / 16777216"
proof -
  from round32_quantum [of x] obtain q where q: "0 < q"
    and r: "round32 x = real_of_int (round_even (x / q)) * q"
    and b: "q = quantum_min \<or> 8388608 * q \<le> \<bar>x\<bar>" by blast
  have "round32 x - x = (real_of_int (round_even (x / q)) - x / q) * q"
    using q by (simp add: r algebra_simps)
  then have "\<bar>round32 x - x\<bar> = \<bar>real_of_int (round_even (x / q)) - x / q\<bar> * q"
    using q by (simp add: abs_mult)
  also have "\<dots> \<le> 1 / 2 * q"
    using q round_even_err [of "x / q"] by (intro mult_right_mono) simp_all
  finally have e: "\<bar>round32 x - x\<bar> \<le> q / 2" by simp
  from b show ?thesis
  proof
    assume "q = quantum_min"
    with e show ?thesis by simp
  next
    assume "8388608 * q \<le> \<bar>x\<bar>"
    with e show ?thesis by simp
  qed
qed

lemma round32_err_sum: "\<bar>round32 x - x\<bar> \<le> quantum_min / 2 + \<bar>x\<bar> / 16777216"
proof -
  have "0 \<le> quantum_min / 2" "0 \<le> \<bar>x\<bar> / 16777216"
    using quantum_min_pos by simp_all
  then show ?thesis using round32_err [of x] by linarith
qed

lemma round32_at:
  assumes "k \<le> 254" and "\<bar>x\<bar> < 16777216 * (quantum_min * 2 ^ k)"
    and "k = 0 \<or> 8388608 * (quantum_min * 2 ^ k) \<le> \<bar>x\<bar>"
  shows "round32 x = real_of_int (round_even (x / (quantum_min * 2 ^ k))) * (quantum_min * 2 ^ k)"
proof -
  have "quantum 254 quantum_min \<bar>x\<bar> = quantum_min * 2 ^ k"
    using assms quantum_min_pos by (intro quantum_eval)
  then show ?thesis by (simp add: round32_def Let_def)
qed

lemma round32_0 [simp]: "round32 0 = 0"
  by (simp add: round32_def round_even_def Let_def)

lemma round32_of_int:
  assumes "\<bar>n\<bar> < 16777216"
  shows "round32 (real_of_int n) = real_of_int n"
proof -
  define a where "a = \<bar>real_of_int n\<bar>"
  from quantum_form [of 254 quantum_min a] obtain k
    where k: "k \<le> 254" and q: "quantum 254 quantum_min a = quantum_min * 2 ^ k" by blast
  have "real_of_int \<bar>n\<bar> < 16777216" using assms by linarith
  then have a: "a < 16777216" by (simp add: a_def)
  have "k \<le> 149"
  proof (rule ccontr)
    assume "\<not> k \<le> 149"
    then have "150 \<le> k" by simp
    then have p: "(2::real) ^ 150 \<le> 2 ^ k" by (intro power_increasing) simp_all
    have m: "quantum_min * (2::real) ^ 150 = 2"
      by (simp add: quantum_min_def)
    have "quantum_min * (2::real) ^ 150 \<le> quantum_min * 2 ^ k"
      by (rule mult_left_mono [OF p less_imp_le [OF quantum_min_pos]])
    then have big: "2 \<le> quantum_min * (2::real) ^ k"
      unfolding m .
    have "quantum 254 quantum_min a = quantum_min \<or> 8388608 * quantum 254 quantum_min a \<le> a"
      by (rule quantum_bound) (rule quantum_min_pos)
    then show False
    proof
      assume "quantum 254 quantum_min a = quantum_min"
      with q big show False by (simp add: quantum_min_def)
    next
      assume "8388608 * quantum 254 quantum_min a \<le> a"
      with q big a show False by simp
    qed
  qed
  then obtain j where j: "149 = k + j" using le_Suc_ex by blast
  have qm: "quantum_min * 2 ^ k = 1 / 2 ^ j"
    by (simp add: quantum_min_def j power_add)
  have "real_of_int n / (quantum_min * 2 ^ k) = real_of_int (n * 2 ^ j)"
    by (simp add: qm)
  then have "round_even (real_of_int n / (quantum_min * 2 ^ k)) = n * 2 ^ j"
    by (simp only: round_even_of_int)
  then have "round32 (real_of_int n) = real_of_int (n * 2 ^ j) * (quantum_min * 2 ^ k)"
    by (simp add: round32_def Let_def q [unfolded a_def])
  also have "\<dots> = real_of_int n"
    by (simp add: qm)
  finally show ?thesis .
qed

lemma round32_numeral [simp]: "numeral w < (16777216::int) \<Longrightarrow> round32 (numeral w) = numeral w"
  using round32_of_int [of "numeral w"] by simp

lemma round32_1 [simp]: "round32 1 = 1"
  using round32_of_int [of 1] by simp

lemma round32_sign: "0 \<le> x \<Longrightarrow> 0 \<le> round32 x"
proof -
  assume x: "0 \<le> x"
  from round32_quantum [of x] obtain q where q: "0 < q"
    and r: "round32 x = real_of_int (round_even (x / q)) * q" by blast
  have "real_of_int 0 \<le> x / q" using x q by simp
  then have "0 \<le> round_even (x / q)" by (rule round_even_ge)
  then show ?thesis using q by (simp add: r)
qed

section \<open>The gyro integrators stay within their constraints\<close>

lemma sint_minus_nonneg: "0 \<le> sint (c::int32_t) \<Longrightarrow> sint (- c) = - sint c"
  using sint_lt [of c] by (simp add: sint_word_ariths signed_take_bit_int_eq_self)

lemma constrain_I_bound: "0 \<le> sint c \<Longrightarrow> \<bar>sint (constrain_I c x)\<bar> \<le> sint c"
  by (auto simp: constrain_I_def Let_def sint_minus_nonneg)

lemma IntegralGyro_sensor_axis:
  "IntegralGyro (sensor_axis ext cfg inp period ax s) p a =
     (if a = ax then constrain_I (Raw_I_Constrain cfg p ax)
        (IntegralGyro s p ax +
         scale_period period
           (scast (float_to_int16 (gyro_lpf ext cfg (gyroSmooth s ax) (gyroADC s ax)) +
                   stick_rate (Stick_rates cfg p ax) (RCinputsAxis inp ax))))
      else IntegralGyro s p a)"
  by (cases p) (simp_all add: sensor_axis_def Let_def upd2_def)

lemma IntegralGyro_Sensor_PID:
  "a \<noteq> ZED \<Longrightarrow>
     \<exists>x. IntegralGyro (Sensor_PID ext cfg inp period s) p a = constrain_I (Raw_I_Constrain cfg p a) x"
  by (cases a; simp add: Sensor_PID_def Let_def IntegralGyro_sensor_axis; blast)

lemma IntegralGyro_pid_axis: "IntegralGyro (pid_axis cfg inp ax s) = IntegralGyro s"
  by (simp add: pid_axis_def Let_def)

lemma IntegralGyro_pid_zed: "IntegralGyro (pid_zed cfg inp p s) = IntegralGyro s"
  by (simp add: pid_zed_def)

lemma IntegralGyro_Calculate_PID:
  "Calculate_PID cfg inp s = Some s' \<Longrightarrow> IntegralGyro s' = IntegralGyro s"
  by (auto simp: Calculate_PID_def IntegralGyro_pid_axis IntegralGyro_pid_zed split: if_splits)

lemma gyro_clamped_Sensor_PID:
  assumes "limits_nonneg (Raw_I_Constrain cfg)"
  shows "gyro_clamped cfg (Sensor_PID ext cfg inp period s)"
  unfolding gyro_clamped_def
proof (intro ballI)
  fix p a assume "p \<in> {P1, P2}" "a \<in> {ROLL, PITCH, YAW}"
  then have a: "a \<noteq> ZED" by auto
  have c: "0 \<le> sint (Raw_I_Constrain cfg p a)"
    using assms by (cases p; cases a) (simp_all add: limits_nonneg_def)
  from IntegralGyro_Sensor_PID [OF a] obtain x
    where "IntegralGyro (Sensor_PID ext cfg inp period s) p a = constrain_I (Raw_I_Constrain cfg p a) x"
    by blast
  with constrain_I_bound [OF c]
  show "\<bar>sint (IntegralGyro (Sensor_PID ext cfg inp period s) p a)\<bar> \<le> sint (Raw_I_Constrain cfg p a)"
    by simp
qed

lemma gyro_clamped_step:
  assumes "limits_nonneg (Raw_I_Constrain cfg)" "gyro_clamped cfg s" "step ext cfg c s = Some s'"
  shows "gyro_clamped cfg s'"
proof (cases c)
  case (Sampler g inp period)
  with assms(3) have "s' = Sensor_PID ext cfg inp period (s\<lparr>gyroADC := g\<rparr>)" by simp
  then show ?thesis using gyro_clamped_Sensor_PID [OF assms(1)] by simp
next
  case (Combiner inp)
  with assms(3) have "IntegralGyro s' = IntegralGyro s"
    by (simp add: IntegralGyro_Calculate_PID)
  with assms(2) show ?thesis by (simp add: gyro_clamped_def)
qed

lemma gyro_clamped_run:
  "limits_nonneg (Raw_I_Constrain cfg) \<Longrightarrow> gyro_clamped cfg s \<Longrightarrow>
     run ext cfg cs s = Some s' \<Longrightarrow> gyro_clamped cfg s'"
proof (induction cs arbitrary: s)
  case Nil
  then show ?case by simp
next
  case (Cons c cs)
  then show ?case
    by (auto split: option.splits dest: gyro_clamped_step)
qed

lemma gyro_clamped_init: "limits_nonneg (Raw_I_Constrain cfg) \<Longrightarrow> gyro_clamped cfg init_state"
  by (simp add: gyro_clamped_def limits_nonneg_def init_state_def)

text \<open>
  Claim C2. With non-negative configured constraints, after every sequence of sampler and
  combiner calls from the zero-initialised globals, each gyro integrator
  \<open>IntegralGyro[p][a]\<close> (axes roll, pitch and yaw) has a magnitude of at most
  \<open>Config.Raw_I_Constrain[p][a]\<close>. As every prefix of a sequence of calls is such a
  sequence, the bound holds in every state between two calls.
\<close>

theorem gyro_integrator_clamped:
  assumes "limits_nonneg (Raw_I_Constrain cfg)"
    and "run ext cfg calls init_state = Some s"
    and "a \<noteq> ZED"
  shows "\<bar>sint (IntegralGyro s p a)\<bar> \<le> sint (Raw_I_Constrain cfg p a)"
proof -
  have "gyro_clamped cfg s"
    using gyro_clamped_run [OF assms(1) gyro_clamped_init [OF assms(1)] assms(2)] .
  then show ?thesis
    using assms(3) by (cases p; cases a) (simp_all add: gyro_clamped_def)
qed

theorem gyro_integrator_clamped_witness:
  "limits_nonneg (Raw_I_Constrain test_config) \<and>
   (\<exists>s. run test_externs test_config
          [Sampler gyro_100 test_inputs 3571, Combiner test_inputs] init_state = Some s \<and>
        \<bar>sint (IntegralGyro s P1 ROLL)\<bar> \<le> sint (Raw_I_Constrain test_config P1 ROLL))"
proof -
  have h1: "limits_nonneg (Raw_I_Constrain test_config)"
    by (simp add: limits_nonneg_def test_config_def)
  obtain s where h2: "run test_externs test_config
      [Sampler gyro_100 test_inputs 3571, Combiner test_inputs] init_state = Some s"
    by (simp add: Calculate_PID_def test_inputs_def)
  have h3: "ROLL \<noteq> ZED" by simp
  from gyro_integrator_clamped [OF h1 h2 h3, of P1] h1 h2 show ?thesis
    by blast
qed

section \<open>The stick rate divider\<close>

lemma stick_rate_shr:
  "0 \<le> sint r \<Longrightarrow> sint r \<le> 6 \<Longrightarrow> sint (stick_rate r x) = sint x div 2 ^ nat (6 - sint r)"
  by (simp add: stick_rate_def sint_signed_drop_bit_eq drop_bit_eq_div algebra_simps)

lemma stick_rate_shl:
  "sint r = 7 \<Longrightarrow> sint (stick_rate r x) = (2 * sint x + 32768) mod 65536 - 32768"
  by (simp add: stick_rate_def sint_word_ariths signed_take_bit_eq_take_bit_shift take_bit_eq_mod
      push_bit_eq_mult mult.commute)

lemma abs_div2_le: "\<bar>(a::int) div 2\<bar> \<le> \<bar>a\<bar>"
  by presburger

lemma abs_div_pow2_antimono: "k \<le> k' \<Longrightarrow> \<bar>(a::int) div 2 ^ k'\<bar> \<le> \<bar>a div 2 ^ k\<bar>"
proof (induction k')
  case 0
  then show ?case by simp
next
  case (Suc k')
  show ?case
  proof (cases "k = Suc k'")
    case True
    then show ?thesis by simp
  next
    case False
    with Suc.prems have le: "k \<le> k'" by simp
    have "a div (2 ^ k' * 2) = a div 2 ^ k' div 2"
      by (rule zdiv_zmult2_eq) simp
    then have "a div 2 ^ Suc k' = (a div 2 ^ k') div 2"
      by (simp add: mult.commute)
    then have "\<bar>a div 2 ^ Suc k'\<bar> \<le> \<bar>a div 2 ^ k'\<bar>"
      using abs_div2_le [of "a div 2 ^ k'"] by simp
    with Suc.IH [OF le] show ?thesis by linarith
  qed
qed

text \<open>Doubling in 16 bits: up to a magnitude of 21845 the wrapped double is no smaller
  than the value (beyond 16383 it has the opposite sign).\<close>

lemma abs_double_wrap:
  assumes "\<bar>a::int\<bar> \<le> 21845"
  shows "\<bar>a\<bar> \<le> \<bar>(2 * a + 32768) mod 65536 - 32768\<bar>"
proof -
  consider "- 16384 \<le> a \<and> a \<le> 16383" | "16384 \<le> a" | "a \<le> - 16385" by linarith
  then show ?thesis
  proof cases
    case 1
    then have "(2 * a + 32768) mod 65536 = 2 * a + 32768"
      by (intro mod_pos_pos_trivial) linarith+
    then show ?thesis by simp
  next
    case 2
    have "(2 * a + 32768) mod 65536 = (2 * a + 32768 - 65536) mod 65536"
      using mod_add_self2 [of "2 * a - 32768" 65536] by (simp add: add.commute)
    also have "\<dots> = 2 * a + 32768 - 65536"
      using 2 assms by (intro mod_pos_pos_trivial) linarith+
    finally show ?thesis using 2 assms by linarith
  next
    case 3
    have "(2 * a + 32768) mod 65536 = (2 * a + 32768 + 65536) mod 65536"
      using mod_add_self2 [of "2 * a + 32768" 65536] by (simp add: add.commute)
    also have "\<dots> = 2 * a + 32768 + 65536"
      using 3 assms by (intro mod_pos_pos_trivial) linarith+
    finally show ?thesis using 3 assms by linarith
  qed
qed

text \<open>
  Claim C4, as stated, at the raw stick value 32767: setting 6 maps it to 32767, setting 7
  doubles it in 16 bits to -2, so the magnitude decreases from setting 6 to setting 7.
\<close>

theorem stick_rate_monotone_counterexample:
  "sint (stick_rate 6 32767) = 32767 \<and> sint (stick_rate 7 32767) = - 2 \<and>
   \<not> \<bar>sint (stick_rate 6 32767)\<bar> \<le> \<bar>sint (stick_rate 7 32767)\<bar>"
  by (simp add: stick_rate_def)

text \<open>
  Claim C4, amended. For every raw stick value of magnitude at most 21845 (the sticks
  deliver about 1000) and rate settings \<open>0 \<le> r1 \<le> r2 \<le> 7\<close>, the magnitude of the
  mapped stick value at \<open>r1\<close> is at most the magnitude at \<open>r2\<close>: settings up to 6 shift
  right by \<open>4 - (r - 2)\<close> bits, setting 7 shifts left by one bit.
\<close>

theorem stick_rate_monotone:
  assumes "0 \<le> sint r1" "sint r1 \<le> sint r2" "sint r2 \<le> 7" "\<bar>sint x\<bar> \<le> 21845"
  shows "\<bar>sint (stick_rate r1 x)\<bar> \<le> \<bar>sint (stick_rate r2 x)\<bar>"
proof (cases "sint r2 = 7")
  case False
  with assms have r2: "0 \<le> sint r2" "sint r2 \<le> 6" and r1: "sint r1 \<le> 6" by linarith+
  have "nat (6 - sint r2) \<le> nat (6 - sint r1)" using assms by linarith
  from abs_div_pow2_antimono [OF this] show ?thesis
    by (simp add: stick_rate_shr r1 r2 assms(1))
next
  case True
  show ?thesis
  proof (cases "sint r1 = 7")
    case True
    with \<open>sint r2 = 7\<close> show ?thesis by (simp add: stick_rate_shl)
  next
    case False
    with assms True have r1: "sint r1 \<le> 6" by linarith
    have "\<bar>sint x div 2 ^ nat (6 - sint r1)\<bar> \<le> \<bar>sint x div 2 ^ 0\<bar>"
      by (rule abs_div_pow2_antimono) simp
    also have "\<dots> = \<bar>sint x\<bar>" by simp
    also have "\<dots> \<le> \<bar>(2 * sint x + 32768) mod 65536 - 32768\<bar>"
      by (rule abs_double_wrap [OF assms(4)])
    finally show ?thesis
      by (simp add: stick_rate_shr [OF assms(1) r1] stick_rate_shl [OF True])
  qed
qed

theorem stick_rate_monotone_witness:
  "0 \<le> sint (2::int8_t) \<and> sint (2::int8_t) \<le> sint (7::int8_t) \<and> sint (7::int8_t) \<le> 7 \<and>
   \<bar>sint (- 1000::int16_t)\<bar> \<le> 21845 \<and>
   \<bar>sint (stick_rate 2 (- 1000))\<bar> \<le> \<bar>sint (stick_rate 7 (- 1000))\<bar>"
  using stick_rate_monotone [of 2 7 "- 1000"] by simp

section \<open>Signed values of words\<close>

lemma truncf_abs_le: "\<bar>real_of_int (truncf x)\<bar> \<le> \<bar>x\<bar>"
proof (cases "0 \<le> x")
  case True
  then have "0 \<le> \<lfloor>x\<rfloor>" by simp
  with True show ?thesis by (simp add: truncf_def)
next
  case False
  then have "\<lceil>x\<rceil> \<le> 0" by (simp add: ceiling_le_iff)
  moreover have "x \<le> real_of_int \<lceil>x\<rceil>" by simp
  ultimately show ?thesis using False by (simp add: truncf_def)
qed

lemma sint_word_of_int32: "- 2147483648 \<le> k \<Longrightarrow> k < 2147483648 \<Longrightarrow> sint (word_of_int k :: int32_t) = k"
  by (simp add: sint_sbintrunc' signed_take_bit_int_eq_self)

lemma sint32_add:
  "- 2147483648 \<le> sint a + sint b \<Longrightarrow> sint a + sint b < 2147483648 \<Longrightarrow>
     sint (a + b :: int32_t) = sint a + sint b"
  by (simp add: sint_word_ariths signed_take_bit_int_eq_self)

lemma sint32_mult:
  "- 2147483648 \<le> sint a * sint b \<Longrightarrow> sint a * sint b < 2147483648 \<Longrightarrow>
     sint (a * b :: int32_t) = sint a * sint b"
  by (simp add: sint_word_ariths signed_take_bit_int_eq_self)

lemma sint_scast_8_32: "sint (scast (w::int8_t) :: int32_t) = sint w"
  by (simp add: sint_up_scast is_up)

lemma sint_scast_16_32: "sint (scast (w::int16_t) :: int32_t) = sint w"
  by (simp add: sint_up_scast is_up)

lemma sint_scast_8_16: "sint (scast (w::int8_t) :: int16_t) = sint w"
  by (simp add: sint_up_scast is_up)

lemma sint8_range: "- 128 \<le> sint (w::int8_t) \<and> sint w < 128"
  using sint_ge [of w] sint_lt [of w] by simp

lemma sint16_range: "- 32768 \<le> sint (w::int16_t) \<and> sint w < 32768"
  using sint_ge [of w] sint_lt [of w] by simp

lemma sint32_range: "- 2147483648 \<le> sint (w::int32_t) \<and> sint w < 2147483648"
  using sint_ge [of w] sint_lt [of w] by simp

section \<open>The fields after a combiner call\<close>

lemma avg_gyro_pid_axis:
  "ax \<noteq> a \<Longrightarrow> avg_gyro inp (pid_axis cfg inp ax s) a = avg_gyro inp s a"
  by (simp add: avg_gyro_def pid_axis_def Let_def)

lemma gyro_I_term_pid_axis:
  "gyro_I_term cfg (pid_axis cfg inp ax s) p a = gyro_I_term cfg s p a"
  by (simp add: gyro_I_term_def gyro_I_actual_def gyro_I_product_def pid_axis_def Let_def)

lemma zed_I_term_pid_axis:
  "zed_I_term cfg (pid_axis cfg inp ax s) p = zed_I_term cfg s p"
  by (simp add: zed_I_term_def pid_axis_def Let_def)

lemma zed_I_term_pid_zed:
  "zed_I_term cfg (pid_zed cfg inp q s) p = zed_I_term cfg s p"
  by (simp add: zed_I_term_def pid_zed_def Let_def)

lemma PID_Gyros_pid_axis:
  "PID_Gyros (pid_axis cfg inp ax s) p a =
     (if a = ax then pid_sum (gyro_P_term cfg p ax (avg_gyro inp s ax)) (gyro_I_term cfg s p ax)
      else PID_Gyros s p a)"
  by (cases p) (simp_all add: pid_axis_def Let_def upd2_def)

lemma PID_Gyros_pid_zed: "PID_Gyros (pid_zed cfg inp q s) = PID_Gyros s"
  by (simp add: pid_zed_def)

lemma gyroADC_pid_axis:
  "gyroADC (pid_axis cfg inp ax s) a = (if a = ax then avg_gyro inp s ax else gyroADC s a)"
  by (simp add: pid_axis_def Let_def)

lemma gyroADC_pid_zed: "gyroADC (pid_zed cfg inp q s) = gyroADC s"
  by (simp add: pid_zed_def)

lemma PID_AvgGyro_pid_axis:
  "PID_AvgGyro (pid_axis cfg inp ax s) a = (if a = ax then 0 else PID_AvgGyro s a)"
  by (simp add: pid_axis_def Let_def)

lemma PID_AvgGyro_pid_zed: "PID_AvgGyro (pid_zed cfg inp q s) = PID_AvgGyro s"
  by (simp add: pid_zed_def)

lemma PID_ACCs_pid_axis:
  "PID_ACCs (pid_axis cfg inp ax s) p a =
     (if a = ax \<and> (ax = ROLL \<or> ax = PITCH) then level_term cfg inp p ax else PID_ACCs s p a)"
  by (cases p) (auto simp add: pid_axis_def Let_def upd2_def)

lemma PID_ACCs_pid_zed:
  "PID_ACCs (pid_zed cfg inp q s) p a =
     (if p = q \<and> a = YAW then pid_sum (zed_P_term cfg inp q) (zed_I_term cfg s q) else PID_ACCs s p a)"
  by (auto simp add: pid_zed_def upd2_def)

lemmas pid_fields = avg_gyro_pid_axis gyro_I_term_pid_axis zed_I_term_pid_axis zed_I_term_pid_zed
  PID_Gyros_pid_axis PID_Gyros_pid_zed gyroADC_pid_axis gyroADC_pid_zed PID_AvgGyro_pid_axis
  PID_AvgGyro_pid_zed PID_ACCs_pid_axis PID_ACCs_pid_zed

lemma Calculate_PID_Some:
  "LoopCount inp \<noteq> 0 \<Longrightarrow> \<exists>s'. Calculate_PID cfg inp s = Some s'"
  by (simp add: Calculate_PID_def)

lemma Calculate_PID_None: "LoopCount inp = 0 \<Longrightarrow> Calculate_PID cfg inp s = None"
  by (simp add: Calculate_PID_def)

lemma Calculate_PID_gyroADC:
  "Calculate_PID cfg inp s = Some s' \<Longrightarrow> a \<noteq> ZED \<Longrightarrow> gyroADC s' a = avg_gyro inp s a"
  by (cases a) (auto simp: Calculate_PID_def pid_fields split: if_splits)

lemma Calculate_PID_AvgGyro:
  "Calculate_PID cfg inp s = Some s' \<Longrightarrow> a \<noteq> ZED \<Longrightarrow> PID_AvgGyro s' a = 0"
  by (cases a) (auto simp: Calculate_PID_def pid_fields split: if_splits)

lemma Calculate_PID_Gyros:
  "Calculate_PID cfg inp s = Some s' \<Longrightarrow> a \<noteq> ZED \<Longrightarrow>
     PID_Gyros s' p a = pid_sum (gyro_P_term cfg p a (avg_gyro inp s a)) (gyro_I_term cfg s p a)"
  by (cases a) (auto simp: Calculate_PID_def pid_fields split: if_splits)

lemma Calculate_PID_ACCs_level:
  "Calculate_PID cfg inp s = Some s' \<Longrightarrow> a = ROLL \<or> a = PITCH \<Longrightarrow>
     PID_ACCs s' p a = level_term cfg inp p a"
  by (cases p) (auto simp: Calculate_PID_def pid_fields split: if_splits)

lemma Calculate_PID_ACCs_zed:
  "Calculate_PID cfg inp s = Some s' \<Longrightarrow>
     PID_ACCs s' p YAW = pid_sum (zed_P_term cfg inp p) (zed_I_term cfg s p)"
  by (cases p) (auto simp: Calculate_PID_def pid_fields split: if_splits)

lemma sint_ucast_uint8: "sint (ucast (w::uint8_t) :: int32_t) = uint w"
proof -
  have u: "uint (ucast w :: int32_t) = uint w"
    by (simp add: uint_up_ucast is_up)
  have "- (2 ^ 31) \<le> (0::int)" by simp
  also have "0 \<le> uint w" by simp
  finally have lo: "- (2 ^ 31) \<le> uint w" .
  have "uint w < 2 ^ 8"
    using uint_bounded [of w] by simp
  also have "(2::int) ^ 8 < 2 ^ 31" by simp
  finally have hi: "uint w < 2 ^ 31" .
  from lo hi have "signed_take_bit 31 (uint w) = uint w"
    by (rule signed_take_bit_int_eq_self)
  with u show ?thesis
    by (simp add: sint_uint)
qed

lemma ucast_32_16_word_of_int: "(ucast (word_of_int k :: int32_t) :: int16_t) = word_of_int k"
  by (rule bit_word_eqI) (auto simp: bit_simps)

lemma avg_gyro_eq:
  "avg_gyro inp s a = word_of_int (sint (PID_AvgGyro s a) sdiv uint (LoopCount inp))"
  by (simp add: avg_gyro_def div_int32_def sint_ucast_uint8 ucast_32_16_word_of_int)

section \<open>The fields after a sampler tick\<close>

lemma gyroSmooth_sensor_axis:
  "gyroSmooth (sensor_axis ext cfg inp period ax s) a =
     (if a = ax then gyro_lpf ext cfg (gyroSmooth s ax) (gyroADC s ax) else gyroSmooth s a)"
  by (simp add: sensor_axis_def Let_def)

lemma gyroADC_sensor_axis:
  "gyroADC (sensor_axis ext cfg inp period ax s) a =
     (if a = ax then float_to_int16 (gyro_lpf ext cfg (gyroSmooth s ax) (gyroADC s ax)) else gyroADC s a)"
  by (simp add: sensor_axis_def Let_def)

lemma PID_AvgGyro_sensor_axis:
  "PID_AvgGyro (sensor_axis ext cfg inp period ax s) a =
     (if a = ax then PID_AvgGyro s ax + scast (float_to_int16 (gyro_lpf ext cfg (gyroSmooth s ax) (gyroADC s ax)))
      else PID_AvgGyro s a)"
  by (simp add: sensor_axis_def Let_def)

lemma IntegralAccVertf_sensor_axis:
  "IntegralAccVertf (sensor_axis ext cfg inp period ax s) = IntegralAccVertf s"
  by (simp add: sensor_axis_def Let_def)

lemma noise_measure_frame:
  "gyroSmooth (noise_measure ext cfg inp s) = gyroSmooth s"
  "gyroADC (noise_measure ext cfg inp s) = gyroADC s"
  "PID_AvgGyro (noise_measure ext cfg inp s) = PID_AvgGyro s"
  "IntegralAccVertf (noise_measure ext cfg inp s) = IntegralAccVertf s"
  "IntegralGyro (noise_measure ext cfg inp s) = IntegralGyro s"
  by (simp_all add: noise_measure_def Let_def)

lemmas sensor_fields = gyroSmooth_sensor_axis gyroADC_sensor_axis PID_AvgGyro_sensor_axis
  IntegralAccVertf_sensor_axis noise_measure_frame

lemma gyroSmooth_Sensor_PID:
  "a \<noteq> ZED \<Longrightarrow> gyroSmooth (Sensor_PID ext cfg inp period s) a = gyro_lpf ext cfg (gyroSmooth s a) (gyroADC s a)"
  by (cases a) (simp_all add: Sensor_PID_def Let_def sensor_fields)

lemma gyroADC_Sensor_PID:
  "a \<noteq> ZED \<Longrightarrow> gyroADC (Sensor_PID ext cfg inp period s) a =
     float_to_int16 (gyro_lpf ext cfg (gyroSmooth s a) (gyroADC s a))"
  by (cases a) (simp_all add: Sensor_PID_def Let_def sensor_fields)

lemma PID_AvgGyro_Sensor_PID:
  "a \<noteq> ZED \<Longrightarrow> PID_AvgGyro (Sensor_PID ext cfg inp period s) a =
     PID_AvgGyro s a + scast (gyroADC (Sensor_PID ext cfg inp period s) a)"
  by (cases a) (simp_all add: Sensor_PID_def Let_def sensor_fields)

lemma IntegralAccVertf_Sensor_PID:
  "IntegralAccVertf (Sensor_PID ext cfg inp period s) p = acc_integrate cfg inp p (IntegralAccVertf s p)"
  by (simp add: Sensor_PID_def Let_def sensor_fields)

section \<open>The scenario with a roll gyro average of 100\<close>

lemma limit_I_zero: "0 \<le> sint l \<Longrightarrow> limit_I l 0 = 0"
  by (simp add: limit_I_def sint_minus_nonneg)

lemma constrain_I_zero: "0 \<le> sint l \<Longrightarrow> constrain_I l 0 = 0"
  by (simp add: constrain_I_def sint_minus_nonneg)

lemma pid_sum_3000: "pid_sum 3000 0 = 46"
  by (simp add: pid_sum_def PID_SCALE_def)

text \<open>
  Claim C6. With an accumulated roll gyro sum of 100 after a single tick
  (\<open>LoopCount = 1\<close>), a roll P gain of 10, a roll I gain of 0 and a non-negative I-term
  output limit, the roll P-term of the combiner is \<open>100 * 10 * 3 = 3000\<close> and the
  published \<open>PID_Gyros[p][ROLL]\<close> is \<open>3000 >> 6 = 46\<close>. The stick does not enter the
  combiner: it only feeds the integrator, which the I gain of 0 removes.
\<close>

theorem scenario_roll_100:
  assumes "PID_AvgGyro s ROLL = 100" and "LoopCount inp = 1"
    and "Roll_P_mult (FlightMode cfg p) = 10" and "Roll_I_mult (FlightMode cfg p) = 0"
    and "0 \<le> sint (Raw_I_Limits cfg p ROLL)"
  shows "gyro_P_term cfg p ROLL (avg_gyro inp s ROLL) = 3000 \<and>
         (\<exists>s'. Calculate_PID cfg inp s = Some s' \<and> PID_Gyros s' p ROLL = 46)"
proof -
  have avg: "avg_gyro inp s ROLL = 100"
    by (simp add: avg_gyro_eq assms)
  have pt: "gyro_P_term cfg p ROLL 100 = 3000"
    by (simp add: gyro_P_term_def assms)
  have it: "gyro_I_term cfg s p ROLL = 0"
    by (simp add: gyro_I_term_def gyro_I_actual_def gyro_I_product_def assms limit_I_zero)
  obtain s' where s': "Calculate_PID cfg inp s = Some s'"
    using Calculate_PID_Some [of inp cfg s] assms(2) by auto
  have "PID_Gyros s' p ROLL = 46"
    by (simp add: Calculate_PID_Gyros [OF s'] avg pt it pid_sum_3000)
  with avg pt s' show ?thesis by simp
qed

theorem scenario_roll_100_witness:
  "PID_AvgGyro sum100_state ROLL = 100 \<and> LoopCount test_inputs = 1 \<and>
   Roll_P_mult (FlightMode test_config P1) = 10 \<and> Roll_I_mult (FlightMode test_config P1) = 0 \<and>
   0 \<le> sint (Raw_I_Limits test_config P1 ROLL) \<and>
   gyro_P_term test_config P1 ROLL (avg_gyro test_inputs sum100_state ROLL) = 3000 \<and>
   (\<exists>s'. Calculate_PID test_config test_inputs sum100_state = Some s' \<and> PID_Gyros s' P1 ROLL = 46)"
proof -
  have h1: "PID_AvgGyro sum100_state ROLL = 100"
    by (simp add: test_defs)
  have h2: "LoopCount test_inputs = 1"
    by (simp add: test_defs)
  have h3: "Roll_P_mult (FlightMode test_config P1) = 10"
    and h4: "Roll_I_mult (FlightMode test_config P1) = 0"
    by (simp_all add: test_defs)
  have h5: "0 \<le> sint (Raw_I_Limits test_config P1 ROLL)"
    by (simp add: test_defs)
  from scenario_roll_100 [OF h1 h2 h3 h4 h5] h1 h2 h3 h4 h5 show ?thesis
    by blast
qed

section \<open>The 32-bit computations\<close>

lemma quantum_min_small: "quantum_min / 2 \<le> 1 / 1000000000000"
  by (simp add: quantum_min_def)

lemma round32_abs_bound: "\<bar>round32 x\<bar> \<le> \<bar>x\<bar> + \<bar>x\<bar> / 16777216 + 1 / 1000000000000"
  using round32_err_sum [of x] quantum_min_small by linarith

lemma int32_to_float_int16: "int32_to_float (scast (v::int16_t)) = real_of_int (sint v)"
proof -
  have "\<bar>sint v\<bar> < 16777216" using sint16_range [of v] by linarith
  then show ?thesis
    by (simp add: int32_to_float_def sint_scast_16_32 round32_of_int del: of_int_sint)
qed

lemma period_factor_bound:
  assumes "unat period \<le> 117014528"
  shows "0 \<le> fdiv (uint32_to_float period) STANDARDLOOP"
    and "fdiv (uint32_to_float period) STANDARDLOOP \<le> 3276801 / 100"
proof -
  define a where "a = uint32_to_float period"
  define b where "b = fdiv a STANDARDLOOP"
  have p: "0 \<le> real (unat period)" "real (unat period) \<le> 117014528"
    using assms by (simp_all del: of_nat_unat)
  have a0: "0 \<le> a" unfolding a_def uint32_to_float_def by (rule round32_sign) (rule p(1))
  have "\<bar>a\<bar> \<le> \<bar>real (unat period)\<bar> + \<bar>real (unat period)\<bar> / 16777216 + 1 / 1000000000000"
    unfolding a_def uint32_to_float_def by (rule round32_abs_bound)
  with p a0 have a1: "a \<le> 117014536" by (simp del: of_nat_unat)
  have d0: "0 \<le> a / 3571" using a0 by simp
  have "a / 3571 \<le> 117014536 / 3571" using a1 by (rule divide_right_mono) simp
  then have d1: "a / 3571 \<le> 32768003 / 1000" by simp
  have b0: "0 \<le> b" unfolding b_def fdiv_def STANDARDLOOP_def using d0 by (intro round32_sign) simp
  have "\<bar>b\<bar> \<le> \<bar>a / 3571\<bar> + \<bar>a / 3571\<bar> / 16777216 + 1 / 1000000000000"
    unfolding b_def fdiv_def STANDARDLOOP_def by (rule round32_abs_bound)
  with d0 d1 b0 have b1: "b \<le> 3276801 / 100" by simp
  from b0 b1 show "0 \<le> fdiv (uint32_to_float period) STANDARDLOOP"
    and "fdiv (uint32_to_float period) STANDARDLOOP \<le> 3276801 / 100"
    by (simp_all add: b_def a_def)
qed

lemma scaled_float_bound:
  assumes "unat period \<le> 117014528"
  shows "\<bar>fmul (int32_to_float (scast (v::int16_t))) (fdiv (uint32_to_float period) STANDARDLOOP)\<bar>
           \<le> 1073743000"
proof -
  define x where "x = real_of_int (sint v)"
  define b where "b = fdiv (uint32_to_float period) STANDARDLOOP"
  have b: "0 \<le> b" "b \<le> 3276801 / 100"
    using period_factor_bound [OF assms] by (simp_all add: b_def)
  have "\<bar>sint v\<bar> \<le> 32768" using sint16_range [of v] by linarith
  then have "real_of_int \<bar>sint v\<bar> \<le> 32768" by linarith
  then have x: "\<bar>x\<bar> \<le> 32768" by (simp add: x_def del: of_int_sint)
  have "\<bar>x * b\<bar> = \<bar>x\<bar> * b" using b(1) by (simp add: abs_mult)
  also have "\<dots> \<le> 32768 * (3276801 / 100)"
    using x b by (intro mult_mono) simp_all
  finally have xb: "\<bar>x * b\<bar> \<le> 107374215168 / 100" by simp
  have "\<bar>round32 (x * b)\<bar> \<le> \<bar>x * b\<bar> + \<bar>x * b\<bar> / 16777216 + 1 / 1000000000000"
    by (rule round32_abs_bound)
  with xb have "\<bar>round32 (x * b)\<bar> \<le> 1073743000" by simp
  then show ?thesis
    by (simp add: fmul_def int32_to_float_int16 x_def b_def)
qed

lemma scale_period_exact:
  assumes "unat period \<le> 117014528"
  shows "sint (scale_period period (scast (v::int16_t))) =
           truncf (fmul (int32_to_float (scast v)) (fdiv (uint32_to_float period) STANDARDLOOP))"
    and "\<bar>sint (scale_period period (scast (v::int16_t)))\<bar> \<le> 1073743000"
proof -
  define y where "y = fmul (int32_to_float (scast v)) (fdiv (uint32_to_float period) STANDARDLOOP)"
  have "\<bar>real_of_int (truncf y)\<bar> \<le> 1073743000"
    using truncf_abs_le [of y] scaled_float_bound [OF assms, of v] by (simp add: y_def)
  then have k: "\<bar>truncf y\<bar> \<le> 1073743000" by linarith
  have s: "scale_period period (scast v) = word_of_int (truncf y)"
    by (simp add: scale_period_def Let_def float_to_int32_def y_def)
  have e: "sint (word_of_int (truncf y) :: int32_t) = truncf y"
    using k by (intro sint_word_of_int32) linarith+
  show "sint (scale_period period (scast v)) =
           truncf (fmul (int32_to_float (scast v)) (fdiv (uint32_to_float period) STANDARDLOOP))"
    using e by (simp add: s y_def)
  show "\<bar>sint (scale_period period (scast v))\<bar> \<le> 1073743000"
    using k by (simp add: s e)
qed

lemma accumulate_exact:
  assumes "\<bar>sint i\<bar> \<le> sint c" "sint c \<le> 16777215" "unat period \<le> 117014528"
  shows "sint (i + scale_period period (scast (v::int16_t))) = sint i + sint (scale_period period (scast v))"
  using assms(1,2) scale_period_exact(2) [OF assms(3), of v]
  by (intro sint32_add) linarith+

lemma sint16_add:
  "- 32768 \<le> sint a + sint b \<Longrightarrow> sint a + sint b \<le> 32767 \<Longrightarrow>
     sint (a + b :: int16_t) = sint a + sint b"
  by (simp add: sint_word_ariths signed_take_bit_int_eq_self)

lemma round32_20000000 [simp]: "round32 20000000 = 20000000"
  by (subst round32_at [of 150]) (simp_all add: round_even_def quantum_min_def)

lemma wide_integral: "IntegralGyro wide_state P1 ROLL = 20000000"
  by (simp add: wide_state_def Sensor_PID_def Let_def IntegralGyro_sensor_axis noise_measure_frame sensor_fields)
     (simp add: test_defs sampler_defs)

lemma tight_integral: "IntegralGyro tight_state P1 ROLL = 16777215"
  by (simp add: tight_state_def Sensor_PID_def Let_def IntegralGyro_sensor_axis noise_measure_frame sensor_fields)
     (simp add: test_defs sampler_defs)

text \<open>The rounding shows in the scaled increment: at a period of 2005 counts an increment
  of 3571 becomes 2004, as the quotient \<open>2005 / 3571\<close> and its product with 3571 are
  rounded to binary32.\<close>

lemma round32_quotient_2005: "round32 (2005 / 3571) = 9419859 / 16777216"
  by (subst round32_at [of 125]) (simp_all add: round_even_def quantum_min_def)

lemma round32_product_2005: "round32 (33638316489 / 16777216) = 16424959 / 8192"
  by (subst round32_at [of 136]) (simp_all add: round_even_def quantum_min_def)

lemma scale_period_rounds: "scale_period 2005 3571 = 2004"
  by (simp add: scale_period_def Let_def STANDARDLOOP_def fdiv_def fmul_def uint32_to_float_def
      int32_to_float_def float_to_int32_def round32_quotient_2005 round32_product_2005 truncf_def)

lemma I_product_exact:
  assumes "\<bar>sint (IntegralGyro s p a)\<bar> \<le> sint (Raw_I_Constrain cfg p a)"
    and "sint (Raw_I_Constrain cfg p a) \<le> 16777215"
  shows "sint (gyro_I_product cfg s p a) = sint (IntegralGyro s p a) * sint (I_gain cfg p a)"
proof -
  define i where "i = sint (IntegralGyro s p a)"
  define g where "g = sint (I_gain cfg p a)"
  have i: "\<bar>i\<bar> \<le> 16777215" using assms by (simp add: i_def)
  have g: "\<bar>g\<bar> \<le> 128" using sint8_range [of "I_gain cfg p a"] by (simp add: g_def abs_le_iff)
  have "\<bar>i * g\<bar> = \<bar>i\<bar> * \<bar>g\<bar>" by (simp add: abs_mult)
  also have "\<dots> \<le> 16777215 * 128"
    using i g by (intro mult_mono) simp_all
  finally have "\<bar>i * g\<bar> \<le> 2147483520" by simp
  then have "- 2147483648 \<le> i * g" "i * g < 2147483648" by linarith+
  then show ?thesis
    unfolding gyro_I_product_def i_def g_def
    by (subst sint32_mult) (simp_all add: sint_scast_8_32)
qed

lemma sint16_mult:
  "- 32768 \<le> sint a * sint b \<Longrightarrow> sint a * sint b < 32768 \<Longrightarrow>
     sint (a * b :: int16_t) = sint a * sint b"
  by (simp add: sint_word_ariths signed_take_bit_int_eq_self)

lemma yaw_bias_exact: "sint (push_bit 6 (scast (t::int8_t) :: int16_t)) = 64 * sint t"
proof -
  have "sint ((scast t :: int16_t) * 64) = sint (scast t :: int16_t) * sint (64 :: int16_t)"
    using sint8_range [of t] by (intro sint16_mult) (simp_all add: sint_scast_8_16)
  then show ?thesis
    by (simp add: push_bit_eq_mult sint_scast_8_16)
qed

lemma P_term_exact:
  "sint (gyro_P_term cfg p a g) =
     ((if a = YAW then 64 * sint (Yaw_trim (FlightMode cfg p)) else 0) +
      sint (g * scast (P_gain cfg p a) :: int16_t)) * 3"
proof -
  define b :: int32_t where
    "b = (if a = YAW then scast (push_bit 6 (scast (Yaw_trim (FlightMode cfg p)) :: int16_t)) else 0)"
  define m :: int16_t where "m = g * scast (P_gain cfg p a)"
  have b: "sint b = (if a = YAW then 64 * sint (Yaw_trim (FlightMode cfg p)) else 0)"
    by (simp add: b_def sint_scast_16_32 yaw_bias_exact)
  have br: "- 8192 \<le> sint b" "sint b \<le> 8192"
    using sint8_range [of "Yaw_trim (FlightMode cfg p)"] by (auto simp: b)
  have mr: "- 32768 \<le> sint m" "sint m < 32768"
    using sint16_range [of m] by simp_all
  have s: "sint (b + scast m) = sint b + sint m"
    using br mr by (subst sint32_add) (simp_all add: sint_scast_16_32)
  have "sint ((b + scast m) * 3) = sint (b + scast m) * sint (3 :: int32_t)"
    using br mr by (intro sint32_mult) (simp_all add: s)
  then have "sint ((b + scast m) * 3) = (sint b + sint m) * 3"
    by (simp add: s)
  then show ?thesis
    by (simp add: gyro_P_term_def Let_def b_def [symmetric] m_def [symmetric] b)
qed

lemma P_term_range: "\<bar>sint (gyro_P_term cfg p a g)\<bar> \<le> 122880"
proof -
  have "- 32768 \<le> sint (g * scast (P_gain cfg p a) :: int16_t)"
       "sint (g * scast (P_gain cfg p a) :: int16_t) < 32768"
    using sint16_range [of "g * scast (P_gain cfg p a)"] by simp_all
  then show ?thesis
    using sint8_range [of "Yaw_trim (FlightMode cfg p)"]
    by (auto simp: P_term_exact)
qed

lemma I_actual_range:
  "- 67108864 \<le> sint (gyro_I_actual cfg s p a)" "sint (gyro_I_actual cfg s p a) < 67108864"
proof -
  define k where "k = sint (gyro_I_product cfg s p a)"
  have k: "- 2147483648 \<le> k" "k \<le> 2147483647"
    using sint32_range [of "gyro_I_product cfg s p a"] by (simp_all add: k_def)
  have "(- 2147483648) div 32 \<le> k div 32"
    using k(1) by (intro zdiv_mono1) simp_all
  moreover have "k div 32 \<le> 2147483647 div 32"
    using k(2) by (intro zdiv_mono1) simp_all
  moreover have "sint (gyro_I_actual cfg s p a) = k div 32"
    by (simp add: gyro_I_actual_def sint_signed_drop_bit_eq drop_bit_eq_div k_def)
  ultimately show "- 67108864 \<le> sint (gyro_I_actual cfg s p a)"
    "sint (gyro_I_actual cfg s p a) < 67108864"
    by simp_all
qed

lemma I_term_range:
  assumes "0 \<le> sint (Raw_I_Limits cfg p a)"
  shows "\<bar>sint (gyro_I_term cfg s p a)\<bar> \<le> 67108864"
  using I_actual_range [of cfg s p a] assms
  by (auto simp: gyro_I_term_def limit_I_def sint_minus_nonneg)

lemma pid_sum_exact:
  assumes "0 \<le> sint (Raw_I_Limits cfg p a)"
  shows "sint (gyro_P_term cfg p a g + gyro_I_term cfg s p a) =
         sint (gyro_P_term cfg p a g) + sint (gyro_I_term cfg s p a)"
  using P_term_range [of cfg p a g] I_term_range [OF assms, of s]
  by (intro sint32_add) linarith+

text \<open>
  Claim C5, as stated. At a configuration with constraints of 20000000 and a roll I gain of
  127, one tick with a gyro reading of 10000 and a period of 7142000 counts leads from the
  initial state to a state in which every gyro integrator obeys its constraint and the roll
  integrator is 20000000; the product with the I gain, 2540000000, does not fit in 32 bits
  and the combiner computes -1754967296. And whatever the state, the sum of a smoothed gyro
  reading of 30000 and a mapped stick value of 30000 (line 204) is computed in 16 bits and
  wraps from 60000 to -5536.
\<close>

theorem overflow_counterexample:
  "run test_externs wide_config [Sampler gyro_10000 test_inputs 7142000] init_state = Some wide_state \<and>
   gyro_clamped wide_config wide_state \<and>
   sint (IntegralGyro wide_state P1 ROLL) = 20000000 \<and>
   sint (I_gain wide_config P1 ROLL) = 127 \<and>
   sint (gyro_I_product wide_config wide_state P1 ROLL) = - 1754967296 \<and>
   sint (gyro_I_product wide_config wide_state P1 ROLL) \<noteq>
     sint (IntegralGyro wide_state P1 ROLL) * sint (I_gain wide_config P1 ROLL) \<and>
   sint (30000 :: int16_t) + sint (stick_rate 6 30000) = 60000 \<and>
   sint ((30000 :: int16_t) + stick_rate 6 30000) = - 5536"
proof -
  have "limits_nonneg (Raw_I_Constrain wide_config)"
    by (simp add: limits_nonneg_def test_defs)
  then have "gyro_clamped wide_config wide_state"
    unfolding wide_state_def by (rule gyro_clamped_Sensor_PID)
  moreover have "I_gain wide_config P1 ROLL = 127"
    by (simp add: test_defs)
  moreover have "run test_externs wide_config [Sampler gyro_10000 test_inputs 7142000] init_state = Some wide_state"
    by (simp add: wide_state_def)
  moreover have "sint (30000 :: int16_t) + sint (stick_rate 6 30000) = 60000"
    "sint ((30000 :: int16_t) + stick_rate 6 30000) = - 5536"
    by (simp_all add: stick_rate_def)
  ultimately show ?thesis
    by (simp add: gyro_I_product_def wide_integral)
qed

text \<open>
  Claim C5, amended. In every state in which the gyro integrator of profile \<open>p\<close> and axis
  \<open>a\<close> obeys its constraint, if the configured constraint is at most \<open>16777215\<close>,
  the I-term output limit is non-negative, the loop period is at most \<open>117014528\<close> timer
  counts and the sum of the smoothed gyro reading \<open>g\<close> and the mapped stick value \<open>k\<close>
  lies within the 16-bit range, then none of these computations overflows: the 16-bit sum
  \<open>g + k\<close>, the conversion of the scaled increment to \<open>int32_t\<close>, its accumulation into
  the integrator, the product of the integrator and the I gain, the 32-bit sum and tripling
  of the P-term, and the sum of the P-term and the limited I-term. The clamp prevents
  overflow together with these bounds on the configuration and the inputs, not alone. The
  16-bit product of the averaged reading and the P gain inside the P-term is not covered: it
  can overflow under these hypotheses (claim C3).
\<close>

theorem no_overflow_bounded_config:
  assumes "\<bar>sint (IntegralGyro s p a)\<bar> \<le> sint (Raw_I_Constrain cfg p a)"
    and "sint (Raw_I_Constrain cfg p a) \<le> 16777215"
    and "0 \<le> sint (Raw_I_Limits cfg p a)"
    and "unat period \<le> 117014528"
    and "- 32768 \<le> sint g + sint k" and "sint g + sint k \<le> 32767"
  shows "sint (g + k :: int16_t) = sint g + sint k \<and>
         sint (scale_period period (scast (g + k))) =
           truncf (fmul (int32_to_float (scast (g + k))) (fdiv (uint32_to_float period) STANDARDLOOP)) \<and>
         sint (IntegralGyro s p a + scale_period period (scast (g + k))) =
           sint (IntegralGyro s p a) + sint (scale_period period (scast (g + k))) \<and>
         sint (gyro_I_product cfg s p a) = sint (IntegralGyro s p a) * sint (I_gain cfg p a) \<and>
         sint (gyro_P_term cfg p a v) =
           ((if a = YAW then 64 * sint (Yaw_trim (FlightMode cfg p)) else 0) +
            sint (v * scast (P_gain cfg p a) :: int16_t)) * 3 \<and>
         sint (gyro_P_term cfg p a v + gyro_I_term cfg s p a) =
           sint (gyro_P_term cfg p a v) + sint (gyro_I_term cfg s p a)"
  using sint16_add [OF assms(5,6)] scale_period_exact(1) [OF assms(4), of "g + k"]
    accumulate_exact [OF assms(1,2,4), of "g + k"] I_product_exact [OF assms(1,2)]
    P_term_exact [of cfg p a v] pid_sum_exact [OF assms(3), of v s]
  by blast

theorem no_overflow_bounded_config_witness:
  "\<bar>sint (IntegralGyro tight_state P1 ROLL)\<bar> \<le> sint (Raw_I_Constrain tight_config P1 ROLL) \<and>
   sint (Raw_I_Constrain tight_config P1 ROLL) \<le> 16777215 \<and>
   0 \<le> sint (Raw_I_Limits tight_config P1 ROLL) \<and>
   unat (117014528 :: uint32_t) \<le> 117014528 \<and>
   - 32768 \<le> sint (20000 :: int16_t) + sint (12767 :: int16_t) \<and>
   sint (20000 :: int16_t) + sint (12767 :: int16_t) \<le> 32767 \<and>
   sint (20000 + 12767 :: int16_t) = sint (20000 :: int16_t) + sint (12767 :: int16_t) \<and>
   sint (scale_period 117014528 (scast (20000 + 12767 :: int16_t))) =
     truncf (fmul (int32_to_float (scast (20000 + 12767 :: int16_t)))
               (fdiv (uint32_to_float 117014528) STANDARDLOOP)) \<and>
   sint (IntegralGyro tight_state P1 ROLL + scale_period 117014528 (scast (20000 + 12767 :: int16_t))) =
     sint (IntegralGyro tight_state P1 ROLL) +
     sint (scale_period 117014528 (scast (20000 + 12767 :: int16_t))) \<and>
   sint (gyro_I_product tight_config tight_state P1 ROLL) =
     sint (IntegralGyro tight_state P1 ROLL) * sint (I_gain tight_config P1 ROLL) \<and>
   sint (gyro_P_term tight_config P1 ROLL 1000) =
     ((if ROLL = YAW then 64 * sint (Yaw_trim (FlightMode tight_config P1)) else 0) +
      sint (1000 * scast (P_gain tight_config P1 ROLL) :: int16_t)) * 3 \<and>
   sint (gyro_P_term tight_config P1 ROLL 1000 + gyro_I_term tight_config tight_state P1 ROLL) =
     sint (gyro_P_term tight_config P1 ROLL 1000) + sint (gyro_I_term tight_config tight_state P1 ROLL) \<and>
   sint (IntegralGyro tight_state P1 ROLL) = 16777215 \<and>
   sint (I_gain tight_config P1 ROLL) = 127 \<and>
   sint (gyro_I_product tight_config tight_state P1 ROLL) = 2130706305"
proof -
  have h1: "\<bar>sint (IntegralGyro tight_state P1 ROLL)\<bar> \<le> sint (Raw_I_Constrain tight_config P1 ROLL)"
    by (simp add: tight_integral) (simp add: test_defs)
  have h2: "sint (Raw_I_Constrain tight_config P1 ROLL) \<le> 16777215"
    by (simp add: test_defs)
  have h3: "0 \<le> sint (Raw_I_Limits tight_config P1 ROLL)"
    by (simp add: test_defs)
  have h4: "unat (117014528 :: uint32_t) \<le> 117014528"
    by simp
  have h5: "- 32768 \<le> sint (20000 :: int16_t) + sint (12767 :: int16_t)"
    and h6: "sint (20000 :: int16_t) + sint (12767 :: int16_t) \<le> 32767"
    by simp_all
  have e1: "sint (IntegralGyro tight_state P1 ROLL) = 16777215"
    by (simp add: tight_integral)
  have e2: "sint (I_gain tight_config P1 ROLL) = 127"
    by (simp add: test_defs)
  have e3: "sint (gyro_I_product tight_config tight_state P1 ROLL) = 2130706305"
    by (simp add: gyro_I_product_def tight_integral) (simp add: test_defs)
  from no_overflow_bounded_config [OF h1 h2 h3 h4 h5 h6, of 1000] h1 h2 h3 h4 h5 h6 e1 e2 e3
  show ?thesis by blast
qed

section \<open>The proportional term\<close>

text \<open>Where the product of the averaged reading and the gain fits in 16 bits, the P-term
  of roll and pitch is the gain times 3 times the average.\<close>

lemma P_term_fits:
  assumes "a = ROLL \<or> a = PITCH"
    and "- 32768 \<le> sint g * sint (P_gain cfg p a)" and "sint g * sint (P_gain cfg p a) < 32768"
  shows "sint (gyro_P_term cfg p a g) = sint (P_gain cfg p a) * 3 * sint g"
proof -
  have "sint (g * scast (P_gain cfg p a) :: int16_t) = sint g * sint (scast (P_gain cfg p a) :: int16_t)"
    using assms(2,3) by (intro sint16_mult) (simp_all add: sint_scast_8_16)
  with assms(1) show ?thesis
    by (auto simp: P_term_exact sint_scast_8_16)
qed

lemma gain100_avg: "PID_AvgGyro gain100_state ROLL = 1000"
  by (simp add: gain100_state_def PID_AvgGyro_Sensor_PID gyroADC_Sensor_PID)
     (simp add: test_defs sampler_defs)

text \<open>
  Claim C3 at an averaged roll reading of 1000 with a roll P gain of 100, reached from the
  initial state by one tick with a gyro reading of 1000 and a combiner call with
  \<open>LoopCount = 1\<close>. The claim gives a P-term of \<open>100 * 3 * 1000 = 300000\<close>. The source
  multiplies the \<open>int16_t\<close> reading and the \<open>int8_t\<close> gain in \<open>int\<close>, which has 16 bits on
  the AVR: the product 100000 wraps to -31072, the P-term is -93216 and the published
  \<open>PID_Gyros[P1][ROLL]\<close> is -1457.
\<close>

theorem P_term_16bit:
  "run test_externs gain100_config [Sampler gyro_1000 test_inputs 3571, Combiner test_inputs] init_state
     = Calculate_PID gain100_config test_inputs gain100_state \<and>
   Calculate_PID gain100_config test_inputs gain100_state \<noteq> None \<and>
   avg_gyro test_inputs gain100_state ROLL = 1000 \<and>
   sint (P_gain gain100_config P1 ROLL) = 100 \<and>
   sint (gyro_P_term gain100_config P1 ROLL (avg_gyro test_inputs gain100_state ROLL)) = - 93216 \<and>
   sint (PID_Gyros (the (Calculate_PID gain100_config test_inputs gain100_state)) P1 ROLL) = - 1457"
proof -
  have l: "LoopCount test_inputs \<noteq> 0" by (simp add: test_defs)
  from Calculate_PID_Some [OF l] obtain s'
    where s': "Calculate_PID gain100_config test_inputs gain100_state = Some s'" by blast
  have avg: "avg_gyro test_inputs gain100_state ROLL = 1000"
    by (simp add: avg_gyro_eq gain100_avg) (simp add: test_defs)
  have pt: "gyro_P_term gain100_config P1 ROLL 1000 = - 93216"
    by (simp add: gyro_P_term_def test_defs)
  have it: "gyro_I_term gain100_config gain100_state P1 ROLL = 0"
    by (simp add: gyro_I_term_def gyro_I_actual_def gyro_I_product_def limit_I_def) (simp add: test_defs)
  have out: "PID_Gyros s' P1 ROLL = - 1457"
    by (simp add: Calculate_PID_Gyros [OF s'] avg pt it pid_sum_def PID_SCALE_def)
  have c1: "run test_externs gain100_config [Sampler gyro_1000 test_inputs 3571, Combiner test_inputs] init_state
     = Calculate_PID gain100_config test_inputs gain100_state"
    by (simp add: gain100_state_def split: option.splits)
  have c2: "Calculate_PID gain100_config test_inputs gain100_state \<noteq> None"
    by (simp add: s')
  have c4: "sint (P_gain gain100_config P1 ROLL) = 100"
    by (simp add: test_defs)
  have c5: "sint (gyro_P_term gain100_config P1 ROLL (avg_gyro test_inputs gain100_state ROLL)) = - 93216"
    by (simp add: avg pt)
  have c6: "sint (PID_Gyros (the (Calculate_PID gain100_config test_inputs gain100_state)) P1 ROLL) = - 1457"
    by (simp add: s' out)
  from c1 c2 avg c4 c5 c6 show ?thesis by blast
qed

section \<open>Zero gains\<close>

text \<open>
  Claim C8, as stated, at a configuration whose gains are all zero and whose yaw trim is 1:
  after one tick with zero gyro readings and centred sticks, the combiner publishes
  \<open>PID_Gyros[P1][YAW] = 3\<close>.
\<close>

theorem zero_gain_counterexample:
  "zero_gains trim_config \<and> zero_tick (Sampler gyro_zero zero_inputs 3571) \<and>
   run test_externs trim_config [Sampler gyro_zero zero_inputs 3571, Combiner zero_inputs] init_state \<noteq> None \<and>
   PID_Gyros (the (run test_externs trim_config [Sampler gyro_zero zero_inputs 3571, Combiner zero_inputs] init_state)) P1 YAW = 3"
proof -
  define s1 where "s1 = Sensor_PID test_externs trim_config zero_inputs 3571 (init_state\<lparr>gyroADC := gyro_zero\<rparr>)"
  have l: "LoopCount zero_inputs \<noteq> 0" by (simp add: test_defs)
  from Calculate_PID_Some [OF l] obtain s'
    where s': "Calculate_PID trim_config zero_inputs s1 = Some s'" by blast
  have r: "run test_externs trim_config [Sampler gyro_zero zero_inputs 3571, Combiner zero_inputs] init_state = Some s'"
    by (simp add: s1_def [symmetric] s')
  have pt: "gyro_P_term trim_config P1 YAW (avg_gyro zero_inputs s1 YAW) = 192"
    by (simp add: gyro_P_term_def test_defs)
  have it: "gyro_I_term trim_config s1 P1 YAW = 0"
    by (simp add: gyro_I_term_def gyro_I_actual_def gyro_I_product_def limit_I_def) (simp add: test_defs)
  have out: "PID_Gyros s' P1 YAW = 3"
    by (simp add: Calculate_PID_Gyros [OF s'] pt it pid_sum_def PID_SCALE_def)
  have z: "zero_gains trim_config"
    by (simp add: zero_gains_def test_defs)
  have t: "zero_tick (Sampler gyro_zero zero_inputs 3571)"
    by (simp add: test_defs)
  from r out z t show ?thesis by simp
qed

lemma run_append:
  "run ext cfg (xs @ ys) s = (case run ext cfg xs s of None \<Rightarrow> None | Some s' \<Rightarrow> run ext cfg ys s')"
  by (induction xs arbitrary: s) (auto split: option.splits)

lemma run_ticks_Some: "\<forall>c\<in>set cs. zero_tick c \<Longrightarrow> \<exists>s'. run ext cfg cs s = Some s'"
proof (induction cs arbitrary: s)
  case Nil
  then show ?case by simp
next
  case (Cons c cs)
  then show ?case by (cases c) simp_all
qed

lemma pid_sum_zero: "pid_sum 0 0 = 0"
  by (simp add: pid_sum_def)

lemma zero_gain_outputs:
  assumes g: "zero_gains cfg"
    and t: "Yaw_trim (FlightMode cfg P1) = 0" "Yaw_trim (FlightMode cfg P2) = 0"
    and l: "limits_nonneg (Raw_I_Limits cfg)"
    and c: "Calculate_PID cfg inp s = Some s'"
    and a: "a \<in> {ROLL, PITCH, YAW}"
  shows "PID_Gyros s' p a = 0 \<and> PID_ACCs s' p a = 0"
proof -
  have az: "a \<noteq> ZED" using a by auto
  have pg: "P_gain cfg p a = 0" and lg: "L_gain cfg p a = 0" and ig: "I_gain cfg p a = 0" and iz: "I_gain cfg p ZED = 0"
    and ly: "L_gain cfg p YAW = 0"
    using g a by (cases p; auto simp: zero_gains_def)+
  have yt: "Yaw_trim (FlightMode cfg p) = 0"
    using t by (cases p) simp_all
  have la: "0 \<le> sint (Raw_I_Limits cfg p a)" and lz: "0 \<le> sint (Raw_I_Limits cfg p ZED)"
    using l a by (cases p; auto simp: limits_nonneg_def)+
  have pt: "gyro_P_term cfg p a x = 0" for x
    by (simp add: gyro_P_term_def pg yt)
  have it: "gyro_I_term cfg s p a = 0"
    by (simp add: gyro_I_term_def gyro_I_actual_def gyro_I_product_def ig limit_I_zero [OF la])
  have gy: "PID_Gyros s' p a = 0"
    by (simp add: Calculate_PID_Gyros [OF c az] pt it pid_sum_zero)
  have lt: "level_term cfg inp p a = 0"
    by (simp add: level_term_def lg)
  have zp: "zed_P_term cfg inp p = 0"
    using ly by (simp add: zed_P_term_def)
  have zi: "zed_I_term cfg s p = 0"
    using iz by (simp add: zed_I_term_def constrain_I_zero [OF lz])
  have "PID_ACCs s' p a = 0"
  proof (cases "a = YAW")
    case True
    then show ?thesis by (simp add: Calculate_PID_ACCs_zed [OF c] zp zi pid_sum_zero)
  next
    case False
    with a have "a = ROLL \<or> a = PITCH" by auto
    then show ?thesis by (simp add: Calculate_PID_ACCs_level [OF c] lt)
  qed
  with gy show ?thesis by simp
qed

text \<open>
  Claim C8, amended. For every number of sampler ticks with zero gyro readings and centred
  sticks followed by a combiner call with a non-zero tick count, if all configured gains
  are zero, both yaw trims are zero and the I-term output limits are non-negative, then the
  combiner returns and every published output (\<open>PID_Gyros\<close> and \<open>PID_ACCs\<close>, both
  profiles, axes roll, pitch and yaw) is zero.
\<close>

theorem zero_gains_zero_outputs:
  assumes "zero_gains cfg"
    and "Yaw_trim (FlightMode cfg P1) = 0" and "Yaw_trim (FlightMode cfg P2) = 0"
    and "limits_nonneg (Raw_I_Limits cfg)"
    and "\<forall>c\<in>set ticks. zero_tick c"
    and "LoopCount inp \<noteq> 0"
  shows "\<exists>s'. run ext cfg (ticks @ [Combiner inp]) init_state = Some s' \<and>
          (\<forall>p. \<forall>a\<in>{ROLL, PITCH, YAW}. PID_Gyros s' p a = 0 \<and> PID_ACCs s' p a = 0)"
proof -
  from run_ticks_Some [OF assms(5)] obtain s where s: "run ext cfg ticks init_state = Some s"
    by blast
  from Calculate_PID_Some [OF assms(6)] obtain s' where s': "Calculate_PID cfg inp s = Some s'"
    by blast
  have "run ext cfg (ticks @ [Combiner inp]) init_state = Some s'"
    by (simp add: run_append s s')
  moreover have "\<forall>p. \<forall>a\<in>{ROLL, PITCH, YAW}. PID_Gyros s' p a = 0 \<and> PID_ACCs s' p a = 0"
    using zero_gain_outputs [OF assms(1-4) s'] by blast
  ultimately show ?thesis by blast
qed

theorem zero_gains_zero_outputs_witness:
  "zero_gains zero_config \<and>
   Yaw_trim (FlightMode zero_config P1) = 0 \<and> Yaw_trim (FlightMode zero_config P2) = 0 \<and>
   limits_nonneg (Raw_I_Limits zero_config) \<and>
   zero_tick (Sampler gyro_zero zero_inputs 3571) \<and> zero_tick (Sampler gyro_zero zero_inputs 7142) \<and>
   LoopCount zero_inputs2 \<noteq> 0 \<and>
   (\<exists>s'. run test_externs zero_config
           ([Sampler gyro_zero zero_inputs 3571, Sampler gyro_zero zero_inputs 7142] @ [Combiner zero_inputs2])
           init_state = Some s' \<and>
         (\<forall>p. \<forall>a\<in>{ROLL, PITCH, YAW}. PID_Gyros s' p a = 0 \<and> PID_ACCs s' p a = 0))"
proof -
  have h1: "zero_gains zero_config"
    by (simp add: zero_gains_def test_defs)
  have h2: "Yaw_trim (FlightMode zero_config P1) = 0" and h3: "Yaw_trim (FlightMode zero_config P2) = 0"
    by (simp_all add: test_defs)
  have h4: "limits_nonneg (Raw_I_Limits zero_config)"
    by (simp add: limits_nonneg_def test_defs)
  have t1: "zero_tick (Sampler gyro_zero zero_inputs 3571)"
    and t2: "zero_tick (Sampler gyro_zero zero_inputs 7142)"
    by (simp_all add: test_defs)
  then have h5: "\<forall>c\<in>set [Sampler gyro_zero zero_inputs 3571, Sampler gyro_zero zero_inputs 7142]. zero_tick c"
    by simp
  have h6: "LoopCount zero_inputs2 \<noteq> 0"
    by (simp add: test_defs)
  from zero_gains_zero_outputs [OF h1 h2 h3 h4 h5 h6, of test_externs] h1 h2 h3 h4 t1 t2 h6
  show ?thesis by blast
qed

section \<open>The combiner rewrites the gyro readings\<close>

text \<open>
  Claim C10. Every combiner call with a non-zero tick count returns and leaves in
  \<open>gyroADC[axis]\<close>, for roll, pitch and yaw, the accumulated sum \<open>PID_AvgGyro[axis]\<close>
  divided by \<open>LoopCount\<close> (truncated towards zero, stored in an \<open>int16_t\<close>) in place of the
  last smoothed sample; the next sampler tick, whatever reading the gyro module has stored
  in between, rewrites \<open>gyroADC[axis]\<close> with the smoothed sample of that tick.
\<close>

theorem combiner_overwrites_gyroADC:
  assumes "LoopCount inp \<noteq> 0"
  shows "\<exists>s'. Calculate_PID cfg inp s = Some s' \<and>
          (\<forall>a\<in>{ROLL, PITCH, YAW}.
             gyroADC s' a = word_of_int (sint (PID_AvgGyro s a) sdiv uint (LoopCount inp)) \<and>
             gyroADC (Sensor_PID ext cfg inp' period (s'\<lparr>gyroADC := gyro\<rparr>)) a =
               float_to_int16 (gyroSmooth (Sensor_PID ext cfg inp' period (s'\<lparr>gyroADC := gyro\<rparr>)) a))"
proof -
  from Calculate_PID_Some [OF assms] obtain s' where s': "Calculate_PID cfg inp s = Some s'"
    by blast
  have "gyroADC s' a = word_of_int (sint (PID_AvgGyro s a) sdiv uint (LoopCount inp))"
    if "a \<in> {ROLL, PITCH, YAW}" for a
    using that by (auto simp: Calculate_PID_gyroADC [OF s'] avg_gyro_eq)
  moreover have "gyroADC (Sensor_PID ext cfg inp' period t) a =
      float_to_int16 (gyroSmooth (Sensor_PID ext cfg inp' period t) a)"
    if "a \<in> {ROLL, PITCH, YAW}" for a t
    using that by (auto simp: gyroADC_Sensor_PID gyroSmooth_Sensor_PID)
  ultimately show ?thesis using s' by blast
qed

theorem combiner_overwrites_gyroADC_witness:
  "LoopCount two_inputs \<noteq> 0 \<and>
   (\<exists>s'. Calculate_PID test_config two_inputs avg_state = Some s' \<and>
      (\<forall>a\<in>{ROLL, PITCH, YAW}.
         gyroADC s' a = word_of_int (sint (PID_AvgGyro avg_state a) sdiv uint (LoopCount two_inputs)) \<and>
         gyroADC (Sensor_PID test_externs test_config test_inputs 3571 (s'\<lparr>gyroADC := gyro_100\<rparr>)) a =
           float_to_int16 (gyroSmooth (Sensor_PID test_externs test_config test_inputs 3571 (s'\<lparr>gyroADC := gyro_100\<rparr>)) a))) \<and>
   (word_of_int (sint (PID_AvgGyro avg_state ROLL) sdiv uint (LoopCount two_inputs)) :: int16_t) = - 3"
proof -
  have h: "LoopCount two_inputs \<noteq> 0"
    by (simp add: test_defs)
  have v: "(word_of_int (sint (PID_AvgGyro avg_state ROLL) sdiv uint (LoopCount two_inputs)) :: int16_t) = - 3"
    by (simp add: test_defs signed_divide_int_def)
  from combiner_overwrites_gyroADC [OF h, of test_config avg_state test_externs test_inputs 3571 gyro_100] h v
  show ?thesis by blast
qed

section \<open>The Z-acc I-term\<close>

lemma round32_tenthousandth: "round32 (1 / 10000) = 13743895 / 137438953472"
  by (subst round32_at [of 112]) (simp_all add: round_even_def quantum_min_def)

lemma round32_factor1: "round32 (137425209577 / 137438953472) = 8387769 / 8388608"
  by (subst round32_at [of 125]) (simp_all add: round_even_def quantum_min_def)

lemma decay_factor_1: "decay_factor decay_config = 8387769 / 8388608"
  by (simp add: decay_factor_def fsub_def fdiv_def int8_to_float_def test_defs
      round32_tenthousandth round32_factor1)

lemma decay_factor_0: "AccVertFilter cfg = 0 \<Longrightarrow> decay_factor cfg = 1"
  by (simp add: decay_factor_def fsub_def fdiv_def int8_to_float_def)

lemma round32_three_decayed: "round32 (25163307 / 8388608) = 6290827 / 2097152"
  by (subst round32_at [of 127]) (simp_all add: round_even_def quantum_min_def)

lemma round32_subnormal_decayed: "round32 (quantum_min * (8387769 / 8388608)) = quantum_min"
  by (subst round32_at [of 0]) (simp_all add: round_even_def quantum_min_def)

lemma round32_16777219: "round32 16777219 = 16777220"
  by (subst round32_at [of 150]) (simp_all add: round_even_def quantum_min_def)

lemma round32_33554432: "round32 33554432 = 33554432"
  by (subst round32_at [of 151]) (simp_all add: round_even_def quantum_min_def)

lemma decay_factor_range:
  assumes "0 < sint (AccVertFilter cfg)"
  shows "0 \<le> decay_factor cfg" and "decay_factor cfg \<le> 16383 / 16384"
proof -
  define t where "t = real_of_int (sint (AccVertFilter cfg)) / 10000"
  define r where "r = round32 t"
  define u where "u = 1 - r"
  have "1 \<le> sint (AccVertFilter cfg)" "sint (AccVertFilter cfg) \<le> 127"
    using assms sint8_range [of "AccVertFilter cfg"] by linarith+
  then have "1 \<le> real_of_int (sint (AccVertFilter cfg))" "real_of_int (sint (AccVertFilter cfg)) \<le> 127"
    by linarith+
  then have t: "1 / 10000 \<le> t" "t \<le> 127 / 10000"
    by (simp_all add: t_def del: of_int_sint)
  have "\<bar>r - t\<bar> \<le> quantum_min / 2 + \<bar>t\<bar> / 16777216"
    unfolding r_def by (rule round32_err_sum)
  with t quantum_min_small have r: "99 / 1000000 \<le> r" "r \<le> 128 / 10000"
    by linarith+
  then have u: "98 / 100 \<le> u" "u \<le> 1 - 99 / 1000000"
    by (simp_all add: u_def)
  have "\<bar>round32 u - u\<bar> \<le> quantum_min / 2 + \<bar>u\<bar> / 16777216"
    by (rule round32_err_sum)
  with u quantum_min_small have "0 \<le> round32 u" "round32 u \<le> 16383 / 16384"
    by linarith+
  moreover have "decay_factor cfg = round32 u"
    by (simp add: decay_factor_def fsub_def fdiv_def int8_to_float_def u_def r_def t_def
        del: of_int_sint)
  ultimately show "0 \<le> decay_factor cfg" and "decay_factor cfg \<le> 16383 / 16384"
    by simp_all
qed

lemma decay_strict:
  assumes f: "0 \<le> f" "f \<le> 16383 / 16384" and x: "1 / 2 ^ 126 \<le> \<bar>x\<bar>"
  shows "\<bar>round32 (x * f)\<bar> < \<bar>x\<bar>"
proof -
  have pos: "0 < \<bar>x\<bar>"
  proof -
    have "(0::real) < 1 / 2 ^ 126" by simp
    with x show ?thesis by linarith
  qed
  have "\<bar>x * f\<bar> = \<bar>x\<bar> * f" using f(1) by (simp add: abs_mult)
  also have "\<dots> \<le> \<bar>x\<bar> * (16383 / 16384)"
    using f(2) by (intro mult_left_mono) simp_all
  finally have y: "\<bar>x * f\<bar> \<le> \<bar>x\<bar> * (16383 / 16384)" .
  have small: "quantum_min / 2 < (1 / 2 ^ 126) / 16384"
    by (simp add: quantum_min_def)
  have "(1 / 2 ^ 126) / 16384 \<le> \<bar>x\<bar> / 16384"
    using x by (rule divide_right_mono) simp
  with small have gap: "quantum_min / 2 < \<bar>x\<bar> / 16384" by linarith
  from round32_err [of "x * f"] show ?thesis
  proof
    assume "\<bar>round32 (x * f) - x * f\<bar> \<le> quantum_min / 2"
    with y gap show ?thesis by linarith
  next
    assume "\<bar>round32 (x * f) - x * f\<bar> \<le> \<bar>x * f\<bar> / 16777216"
    with y pos show ?thesis by linarith
  qed
qed

lemma decay_subnormal:
  assumes f: "0 \<le> f" "f \<le> 1" and r: "round32 x = x" and x: "\<bar>x\<bar> < 1 / 2 ^ 126"
  shows "\<bar>round32 (x * f)\<bar> \<le> \<bar>x\<bar>"
proof -
  define K where "K = round_even (x / quantum_min)"
  have lim: "(1::real) / 2 ^ 126 \<le> 16777216 * (quantum_min * 2 ^ 0)"
    by (simp add: quantum_min_def)
  with x have x1: "\<bar>x\<bar> < 16777216 * (quantum_min * 2 ^ 0)" by linarith
  have "round32 x = real_of_int (round_even (x / (quantum_min * 2 ^ 0))) * (quantum_min * 2 ^ 0)"
    using x1 by (intro round32_at) simp_all
  with r have xk: "x = real_of_int K * quantum_min" by (simp add: K_def)
  have "\<bar>x * f\<bar> = \<bar>x\<bar> * f" using f(1) by (simp add: abs_mult)
  also have "\<dots> \<le> \<bar>x\<bar> * 1" using f(2) by (intro mult_left_mono) simp_all
  finally have yx: "\<bar>x * f\<bar> \<le> \<bar>x\<bar>" by simp
  with x1 have y1: "\<bar>x * f\<bar> < 16777216 * (quantum_min * 2 ^ 0)" by linarith
  have "round32 (x * f) = real_of_int (round_even (x * f / (quantum_min * 2 ^ 0))) * (quantum_min * 2 ^ 0)"
    using y1 by (intro round32_at) simp_all
  moreover have "x * f / (quantum_min * 2 ^ 0) = real_of_int K * f"
    using quantum_min_pos by (simp add: xk)
  ultimately have yk: "round32 (x * f) = real_of_int (round_even (real_of_int K * f)) * quantum_min"
    by simp
  have "\<bar>real_of_int K * f\<bar> = \<bar>real_of_int K\<bar> * f" using f(1) by (simp add: abs_mult)
  also have "\<dots> \<le> \<bar>real_of_int K\<bar> * 1" using f(2) by (intro mult_left_mono) simp_all
  finally have "\<bar>real_of_int K * f\<bar> \<le> real_of_int \<bar>K\<bar>" by simp
  then have "\<bar>round_even (real_of_int K * f)\<bar> \<le> \<bar>K\<bar>" by (rule round_even_abs_le)
  then have "real_of_int \<bar>round_even (real_of_int K * f)\<bar> \<le> real_of_int \<bar>K\<bar>" by linarith
  then have le: "\<bar>real_of_int (round_even (real_of_int K * f))\<bar> * quantum_min \<le> \<bar>real_of_int K\<bar> * quantum_min"
    using quantum_min_pos by (intro mult_right_mono) simp_all
  have "\<bar>round32 (x * f)\<bar> = \<bar>real_of_int (round_even (real_of_int K * f))\<bar> * quantum_min"
    unfolding yk using quantum_min_pos by (simp add: abs_mult)
  also note le
  also have "\<bar>real_of_int K\<bar> * quantum_min = \<bar>x\<bar>"
    unfolding xk using quantum_min_pos by (simp add: abs_mult)
  finally show ?thesis .
qed

text \<open>
  Claim C1, as stated, at a constraint table entry of 50 and an output limit table entry of
  10 for the vertical axis: from a zero integrator a tick with a vertical acceleration of
  100 and a decay setting of 0 leaves the integrator at 50, outside the range of the output
  limit table.
\<close>

theorem vertical_integrator_counterexample:
  "IntegralAccVertf (Sensor_PID test_externs test_config test_inputs 3571 init_state) P1 = 50 \<and>
   int32_to_float (Raw_I_Constrain test_config P1 ZED) = 50 \<and>
   int32_to_float (Raw_I_Limits test_config P1 ZED) = 10 \<and>
   \<not> IntegralAccVertf (Sensor_PID test_externs test_config test_inputs 3571 init_state) P1
       \<le> int32_to_float (Raw_I_Limits test_config P1 ZED)"
  by (simp add: IntegralAccVertf_Sensor_PID) (simp add: test_defs sampler_defs)

text \<open>
  Claim C1, amended. On every sampler tick the vertical integrator of each profile \<open>p\<close>
  becomes: the binary32 sum of its old value and the sample \<open>accVertf\<close>, multiplied in
  binary32 by the factor \<open>1 - Config.AccVertFilter / 10000\<close> (the quotient and the
  difference rounded to binary32 as well), and then clamped to the symmetric range of
  \<open>Config.Raw_I_Constrain[p][ZED]\<close> promoted to float (the constraint table that also
  bounds the gyro integrators, not the output limit table; the promotion rounds an entry
  above \<open>2^24\<close>), for a non-negative table entry.
\<close>

theorem vertical_integrator_update:
  assumes "0 \<le> sint (Raw_I_Constrain cfg p ZED)"
  shows "IntegralAccVertf (Sensor_PID ext cfg inp period s) p =
     max (- round32 (real_of_int (sint (Raw_I_Constrain cfg p ZED))))
       (min (round32 (real_of_int (sint (Raw_I_Constrain cfg p ZED))))
          (round32 (round32 (IntegralAccVertf s p + accVertf inp) *
                    round32 (1 - round32 (real_of_int (sint (AccVertFilter cfg)) / 10000)))))"
proof -
  have "0 \<le> real_of_int (sint (Raw_I_Constrain cfg p ZED))"
    using assms by linarith
  then have "0 \<le> round32 (real_of_int (sint (Raw_I_Constrain cfg p ZED)))"
    by (rule round32_sign)
  then show ?thesis
    by (auto simp: IntegralAccVertf_Sensor_PID acc_integrate_def constrain_accf_def acc_decay_def
        decay_factor_def fadd_def fsub_def fmul_def fdiv_def int32_to_float_def int8_to_float_def
        Let_def max_def min_def simp del: of_int_sint)
qed

theorem vertical_integrator_update_witness:
  "0 \<le> sint (Raw_I_Constrain decay_config P1 ZED) \<and>
   IntegralAccVertf (Sensor_PID test_externs decay_config zero_inputs 3571 three_state) P1 =
     max (- round32 (real_of_int (sint (Raw_I_Constrain decay_config P1 ZED))))
       (min (round32 (real_of_int (sint (Raw_I_Constrain decay_config P1 ZED))))
          (round32 (round32 (IntegralAccVertf three_state P1 + accVertf zero_inputs) *
                    round32 (1 - round32 (real_of_int (sint (AccVertFilter decay_config)) / 10000))))) \<and>
   IntegralAccVertf (Sensor_PID test_externs decay_config zero_inputs 3571 three_state) P1 =
     6290827 / 2097152 \<and>
   0 \<le> sint (Raw_I_Constrain odd_config P1 ZED) \<and>
   sint (Raw_I_Constrain odd_config P1 ZED) = 16777219 \<and>
   IntegralAccVertf (Sensor_PID test_externs odd_config big_inputs 3571 init_state) P1 = 16777220"
proof -
  have h1: "0 \<le> sint (Raw_I_Constrain decay_config P1 ZED)" by (simp add: test_defs)
  have h2: "0 \<le> sint (Raw_I_Constrain odd_config P1 ZED)" by (simp add: test_defs)
  have c2: "sint (Raw_I_Constrain odd_config P1 ZED) = 16777219" by (simp add: test_defs)
  note w1 = vertical_integrator_update [OF h1, of test_externs zero_inputs 3571 three_state]
  note w2 = vertical_integrator_update [OF h2, of test_externs big_inputs 3571 init_state]
  have a1: "IntegralAccVertf three_state P1 + accVertf zero_inputs = 3"
    by (simp add: test_defs)
  have f1: "round32 (1 - round32 (real_of_int (sint (AccVertFilter decay_config)) / 10000)) = 8387769 / 8388608"
    using decay_factor_1 by (simp add: decay_factor_def fsub_def fdiv_def int8_to_float_def)
  have c1: "round32 (real_of_int (sint (Raw_I_Constrain decay_config P1 ZED))) = 50"
    by (simp add: test_defs)
  have v1: "IntegralAccVertf (Sensor_PID test_externs decay_config zero_inputs 3571 three_state) P1 =
     6290827 / 2097152"
    by (simp add: w1 a1 f1 c1 round32_three_decayed del: of_int_sint)
  have a2: "IntegralAccVertf init_state P1 + accVertf big_inputs = 33554432"
    by (simp add: test_defs)
  have f2: "round32 (1 - round32 (real_of_int (sint (AccVertFilter odd_config)) / 10000)) = 1"
    by (simp add: test_defs)
  have b2: "round32 (real_of_int (sint (Raw_I_Constrain odd_config P1 ZED))) = 16777220"
    by (simp add: c2 round32_16777219)
  have v2: "IntegralAccVertf (Sensor_PID test_externs odd_config big_inputs 3571 init_state) P1 = 16777220"
    by (simp add: w2 a2 f2 b2 round32_33554432 del: of_int_sint)
  from w1 h1 v1 h2 c2 v2 show ?thesis by blast
qed

text \<open>
  Claim C7, as stated, with a decay setting of 1: the decay step leaves a zero integrator at
  zero and the least subnormal \<open>2^-149\<close> at \<open>2^-149\<close>, so the magnitude is not strictly
  smaller.
\<close>

theorem decay_counterexample:
  "AccVertFilter decay_config \<noteq> 0 \<and> acc_decay decay_config 0 = 0 \<and>
   \<not> \<bar>acc_decay decay_config 0\<bar> < \<bar>0\<bar> \<and>
   acc_decay decay_config quantum_min = quantum_min \<and>
   \<not> \<bar>acc_decay decay_config quantum_min\<bar> < \<bar>quantum_min\<bar>"
proof -
  have "AccVertFilter decay_config \<noteq> 0" by (simp add: test_defs)
  moreover have "acc_decay decay_config 0 = 0" by (simp add: acc_decay_def fmul_def)
  moreover have "acc_decay decay_config quantum_min = quantum_min"
    by (simp only: acc_decay_def fmul_def decay_factor_1 round32_subnormal_decayed)
  ultimately show ?thesis by simp
qed

text \<open>
  Claim C7, amended. One decay step with zero new input (the binary32 product of the
  integrator and the factor) leaves the magnitude strictly smaller when
  \<open>Config.AccVertFilter\<close> is positive (1 to 127) and the magnitude of the integrator is at
  least \<open>2^-126\<close> (a normal binary32 value); it never increases the magnitude of a binary32
  value for a setting of 0 to 127 (zero and the small subnormals can stay as they are); and
  it leaves every binary32 value exactly unchanged when \<open>Config.AccVertFilter\<close> is zero.
\<close>

theorem decay_magnitude:
  "(0 < sint (AccVertFilter cfg) \<longrightarrow> 1 / 2 ^ 126 \<le> \<bar>x\<bar> \<longrightarrow> \<bar>acc_decay cfg x\<bar> < \<bar>x\<bar>) \<and>
   (0 \<le> sint (AccVertFilter cfg) \<longrightarrow> round32 x = x \<longrightarrow> \<bar>acc_decay cfg x\<bar> \<le> \<bar>x\<bar>) \<and>
   (AccVertFilter cfg = 0 \<longrightarrow> round32 x = x \<longrightarrow> acc_decay cfg x = x)"
proof (intro conjI impI)
  assume "0 < sint (AccVertFilter cfg)" and "1 / 2 ^ 126 \<le> \<bar>x\<bar>"
  then show "\<bar>acc_decay cfg x\<bar> < \<bar>x\<bar>"
    using decay_factor_range [of cfg] by (simp add: acc_decay_def fmul_def decay_strict)
next
  assume z: "AccVertFilter cfg = 0" and r: "round32 x = x"
  then show "acc_decay cfg x = x"
    by (simp add: acc_decay_def fmul_def decay_factor_0)
next
  assume k: "0 \<le> sint (AccVertFilter cfg)" and r: "round32 x = x"
  show "\<bar>acc_decay cfg x\<bar> \<le> \<bar>x\<bar>"
  proof (cases "sint (AccVertFilter cfg) = 0")
    case True
    then have "AccVertFilter cfg = 0" by (simp add: signed_eq_0_iff)
    with r show ?thesis by (simp add: acc_decay_def fmul_def decay_factor_0)
  next
    case False
    with k have p: "0 < sint (AccVertFilter cfg)" by linarith
    note f = decay_factor_range [OF p]
    show ?thesis
    proof (cases "1 / 2 ^ 126 \<le> \<bar>x\<bar>")
      case True
      with f have "\<bar>round32 (x * decay_factor cfg)\<bar> < \<bar>x\<bar>" by (intro decay_strict)
      then show ?thesis by (simp add: acc_decay_def fmul_def)
    next
      case False
      then have "\<bar>x\<bar> < 1 / 2 ^ 126" by simp
      moreover have "decay_factor cfg \<le> 1" using f(2) by simp
      ultimately have "\<bar>round32 (x * decay_factor cfg)\<bar> \<le> \<bar>x\<bar>"
        using f(1) r by (intro decay_subnormal)
      then show ?thesis by (simp add: acc_decay_def fmul_def)
    qed
  qed
qed

theorem decay_magnitude_witness:
  "0 < sint (AccVertFilter decay_config) \<and> 1 / 2 ^ 126 \<le> \<bar>3::real\<bar> \<and>
   \<bar>acc_decay decay_config 3\<bar> < \<bar>3\<bar> \<and>
   acc_decay decay_config 3 = 6290827 / 2097152 \<and>
   0 \<le> sint (AccVertFilter decay_config) \<and> round32 quantum_min = quantum_min \<and>
   \<bar>acc_decay decay_config quantum_min\<bar> \<le> \<bar>quantum_min\<bar> \<and>
   AccVertFilter test_config = 0 \<and> round32 3 = 3 \<and> acc_decay test_config 3 = 3"
proof -
  have h1: "0 < sint (AccVertFilter decay_config)" by (simp add: test_defs)
  have h2: "1 / 2 ^ 126 \<le> \<bar>3::real\<bar>" by simp
  have h3: "0 \<le> sint (AccVertFilter decay_config)" by (simp add: test_defs)
  have h4: "round32 quantum_min = quantum_min"
    by (subst round32_at [of 0]) (simp_all add: round_even_def quantum_min_def)
  have h5: "AccVertFilter test_config = 0" by (simp add: test_defs)
  have h6: "round32 3 = 3" by simp
  have e: "acc_decay decay_config 3 = 6290827 / 2097152"
    by (simp add: acc_decay_def fmul_def decay_factor_1 round32_three_decayed)
  from decay_magnitude [of decay_config 3] decay_magnitude [of decay_config quantum_min]
    decay_magnitude [of test_config 3] h1 h2 h3 h4 h5 h6 e
  show ?thesis by blast
qed

section \<open>The gyro noise measure\<close>

lemma HPF_O_range: "0 < HPF_O" "HPF_O < 1"
proof -
  have e: "HPF_O = pi * (2 / 25)" by (simp add: HPF_O_def)
  have "0 < pi * (2 / 25)" by simp
  then show "0 < HPF_O" by (simp only: e)
  have "pi * (2 / 25) < 4 * (2 / 25)"
    using pi_less_4 by (intro mult_strict_right_mono) simp_all
  also have "\<dots> < (1::real)" by simp
  finally show "HPF_O < 1" by (simp only: e)
qed

lemma truncf_small: "0 \<le> x \<Longrightarrow> x < 1 \<Longrightarrow> truncf x = 0"
  by (simp add: truncf_def floor_eq_iff)

lemma noise_measure_off: "Vibration cfg \<noteq> ON ext \<Longrightarrow> noise_measure ext cfg inp s = s"
  by (simp add: noise_measure_def)

lemma noise_measure_on:
  assumes "Vibration cfg = ON ext"
  shows "GyroAvgNoise (noise_measure ext cfg inp s) =
     min 999 ((GyroAvgNoise s * 99 +
               int16_to_float (abs_int (float_to_int16 (fsample (noise_measure ext cfg inp s))))) / 100)"
  using assms by (simp add: noise_measure_def Let_def min_def)

lemma noise_measure_le_999:
  "Vibration cfg = ON ext \<Longrightarrow> GyroAvgNoise (noise_measure ext cfg inp s) \<le> 999"
  by (simp add: noise_measure_on)

lemma noise_residual:
  "fsample (noise_measure test_externs noise_config noise_inputs init_state) = 1 - HPF_O"
  using HPF_O_range(1)
  by (simp add: noise_measure_def Let_def test_defs int16_to_float_def HPF_C_def HPF_L_def)

text \<open>
  Claim C9 at the first tick with vibration display on and a raw roll reading of 1, all
  filter state zero. The high-pass residual is \<open>1 - 2 * pi * 20 / 500\<close>, about 0.75, so
  the claim gives a new estimate of about 0.0075. \<open>abs\<close> is the integer function: the
  residual is converted to \<open>int\<close>, which truncates it to 0, and the new estimate is 0.
\<close>

theorem noise_abs_truncates:
  "Vibration noise_config = ON test_externs \<and>
   fsample (noise_measure test_externs noise_config noise_inputs init_state) = 1 - 2 * pi * 20 / 500 \<and>
   GyroAvgNoise (noise_measure test_externs noise_config noise_inputs init_state) = 0 \<and>
   0 < (99 * GyroAvgNoise init_state +
        \<bar>fsample (noise_measure test_externs noise_config noise_inputs init_state)\<bar>) / 100"
proof -
  have on: "Vibration noise_config = ON test_externs"
    by (simp add: test_defs)
  have r: "0 \<le> 1 - HPF_O" "1 - HPF_O < 1"
    using HPF_O_range by simp_all
  have t: "float_to_int16 (1 - HPF_O) = 0"
    by (simp add: float_to_int16_def truncf_small [OF r])
  have n: "GyroAvgNoise (noise_measure test_externs noise_config noise_inputs init_state) = 0"
    by (simp add: noise_measure_on [OF on] noise_residual t abs_int_def int16_to_float_def)
       (simp add: test_defs)
  have p: "0 < (99 * GyroAvgNoise init_state +
        \<bar>fsample (noise_measure test_externs noise_config noise_inputs init_state)\<bar>) / 100"
    using HPF_O_range by (simp add: noise_residual) (simp add: test_defs)
  have f: "fsample (noise_measure test_externs noise_config noise_inputs init_state) = 1 - 2 * pi * 20 / 500"
    by (simp add: noise_residual HPF_O_def)
  from on f n p show ?thesis by blast
qed

end
